theory Spec2Isabelle
  imports Complex_Main
begin

section \<open>Numbers, points, rectangles and segments (BasicTypes.ts)\<close>

text \<open>
  A JavaScript \<^verbatim>\<open>number\<close> that is finite is modelled as a \<^typ>\<open>real\<close>: arithmetic is
  exact, rounding and overflow of IEEE doubles are left out. Where the source divides,
  the quotient may be \<^verbatim>\<open>NaN\<close> or \<^verbatim>\<open>\<plusminus>Infinity\<close>; such a value is \<open>NonFinite\<close>, and it
  stays \<open>NonFinite\<close> through every further \<^verbatim>\<open>+ - * /\<close> with a finite operand, as in
  JavaScript.
\<close>

datatype num = Fin real | NonFinite

text \<open>\<^verbatim>\<open>a / b\<close> on finite operands: dividing by zero gives \<^verbatim>\<open>NaN\<close> or an infinity.\<close>

definition num_div :: "real \<Rightarrow> real \<Rightarrow> num" where
  "num_div a b = (if b = 0 then NonFinite else Fin (a / b))"

text \<open>\<^verbatim>\<open>Math.sqrt\<close>: \<^verbatim>\<open>NaN\<close> on a negative argument.\<close>

definition num_sqrt :: "num \<Rightarrow> num" where
  "num_sqrt v = (case v of Fin r \<Rightarrow> (if r < 0 then NonFinite else Fin (sqrt r)) | NonFinite \<Rightarrow> NonFinite)"

text \<open>A finite-valued operation applied to a number that may be non-finite.\<close>

definition num_map :: "(real \<Rightarrow> real) \<Rightarrow> num \<Rightarrow> num" where
  "num_map f v = (case v of Fin r \<Rightarrow> Fin (f r) | NonFinite \<Rightarrow> NonFinite)"

definition num_bind :: "num \<Rightarrow> (real \<Rightarrow> num) \<Rightarrow> num" where
  "num_bind v f = (case v of Fin r \<Rightarrow> f r | NonFinite \<Rightarrow> NonFinite)"

text \<open>
  \<^verbatim>\<open>interface Point { x: number; y: number }\<close>. The fields are named \<open>px\<close> and \<open>py\<close>,
  since \<open>x\<close> and \<open>y\<close> are wanted as variables.
\<close>

record Point =
  px :: real
  py :: real

text \<open>A point as a function returns it: a coordinate may be non-finite.\<close>

record NumPoint =
  nx :: num
  ny :: num

definition of_Point :: "Point \<Rightarrow> NumPoint" where
  "of_Point p = \<lparr>nx = Fin (px p), ny = Fin (py p)\<rparr>"

record Rect =
  rect_left :: real
  rect_top :: real
  rect_width :: real
  rect_height :: real

type_synonym Segment = "Point \<times> Point"

section \<open>Geometry helpers (Helper.ts)\<close>

text \<open>\<^verbatim>\<open>GetDistanceBetweenTwoPoint\<close>: \<^verbatim>\<open>Infinity\<close> (here \<open>NonFinite\<close>) when a point is null.\<close>

definition GetDistanceBetweenTwoPoint :: "Point option \<Rightarrow> Point option \<Rightarrow> num" where
  "GetDistanceBetweenTwoPoint point1 point2 =
     (case (point1, point2) of
        (Some p1, Some p2) \<Rightarrow> Fin (sqrt ((px p2 - px p1)\<^sup>2 + (py p2 - py p1)\<^sup>2))
      | _ \<Rightarrow> NonFinite)"

definition GetSegmentLength :: "Point option \<times> Point option \<Rightarrow> num" where
  "GetSegmentLength segment = GetDistanceBetweenTwoPoint (fst segment) (snd segment)"

text \<open>\<^verbatim>\<open>PointInRect\<close>: the point itself inside the closed rectangle, null otherwise.\<close>

definition PointInRect :: "Rect \<Rightarrow> Point option \<Rightarrow> Point option" where
  "PointInRect rect pos =
     (case pos of
        None \<Rightarrow> None
      | Some p \<Rightarrow>
          (if px p \<ge> rect_left rect \<and> px p \<le> rect_width rect + rect_left rect \<and>
              py p \<ge> rect_top rect \<and> py p \<le> rect_top rect + rect_height rect
           then Some p else None))"

text \<open>
  \<^verbatim>\<open>LimitPointToCircle\<close>. The comparison \<^verbatim>\<open>distance <= radius\<close> is false for the
  distance \<^verbatim>\<open>Infinity\<close>; the two points are not null here, so the distance is finite.
\<close>

definition LimitPointToCircle :: "Point \<Rightarrow> real \<Rightarrow> Point \<Rightarrow> NumPoint" where
  "LimitPointToCircle startPoint radius limitedPoint =
     (if (case GetDistanceBetweenTwoPoint (Some startPoint) (Some limitedPoint) of
            Fin d \<Rightarrow> d \<le> radius | NonFinite \<Rightarrow> False)
      then of_Point limitedPoint
      else
        let a = px startPoint;
            b = py startPoint;
            n = px limitedPoint;
            m = py limitedPoint;
            x0 = num_map (\<lambda>s. s + a)
                   (num_sqrt (num_div (radius\<^sup>2 * (a - n)\<^sup>2) ((a - n)\<^sup>2 + (b - m)\<^sup>2)));
            x1 = (if px limitedPoint < 0 then num_map (\<lambda>v. v * (- 1)) x0 else x0);
            y0 = num_map (\<lambda>q. q + b) (num_bind x1 (\<lambda>v. num_div ((v - a) * (b - m)) (a - n)));
            y1 = (if a - n + b = 0 then Fin radius else y0)
        in \<lparr>nx = x1, ny = y1\<rparr>)"

text \<open>
  \<^verbatim>\<open>GetIntersectBeetwenTwoLine\<close> and \<^verbatim>\<open>GetIntersectBetweenTwoSegment\<close> are not embedded.
  Which of the three outcomes the source takes (a point, null, the error) is decided by
  \<^verbatim>\<open>isFinite\<close> of two quotients of differences of products and by a comparison of such
  differences with \<^verbatim>\<open>0.1\<close>; in doubles these cancel, round to zero and overflow at
  ordinary inputs, where exact reals do the opposite, so a definition over \<^typ>\<open>real\<close>
  would not be the function.
\<close>

text \<open>
  \<^verbatim>\<open>GetCordsFromTwoPoint\<close>. The \<^verbatim>\<open>for\<close> loop over \<^verbatim>\<open>i = 1 .. totalSteps\<close> is the
  recursion \<open>cordsLoop\<close>, which pushes one interpolated point per round.
\<close>

function cordsLoop :: "Point \<Rightarrow> Point \<Rightarrow> int \<Rightarrow> int \<Rightarrow> Point list \<Rightarrow> Point list" where
  "cordsLoop pointOne pointTwo totalSteps i result =
     (if i \<le> totalSteps
      then let t = real_of_int i / real_of_int totalSteps
           in cordsLoop pointOne pointTwo totalSteps (i + 1)
                (result @ [\<lparr>px = px pointOne + (px pointTwo - px pointOne) * t,
                            py = py pointOne + (py pointTwo - py pointOne) * t\<rparr>])
      else result)"
  by pat_completeness auto
termination
  by (relation "measure (\<lambda>(pointOne, pointTwo, totalSteps, i, result). nat (totalSteps + 1 - i))") auto

declare cordsLoop.simps [simp del]

definition GetCordsFromTwoPoint :: "Point \<Rightarrow> Point \<Rightarrow> Point list" where
  "GetCordsFromTwoPoint pointOne pointTwo =
     (let sizeX = \<bar>px pointOne - px pointTwo\<bar>;
          sizeY = \<bar>py pointOne - py pointTwo\<bar>;
          lengthLine = max sizeX sizeY
      in if lengthLine = 0 then [pointOne]
         else let MAX_FRAMES = 60;
                  totalSteps = min \<lceil>lengthLine\<rceil> MAX_FRAMES
              in cordsLoop pointOne pointTwo totalSteps 1 [pointOne])"


section \<open>Settings (Settings.ts)\<close>

text \<open>
  \<^verbatim>\<open>SizeType\<close> is a string type with the two values \<^verbatim>\<open>'fixed'\<close> and \<^verbatim>\<open>'stretch'\<close>; the
  user may pass any string, which is why \<^verbatim>\<open>getSettings\<close> checks it.
\<close>

definition FIXED :: string where "FIXED = ''fixed''"
definition STRETCH :: string where "STRETCH = ''stretch''"

text \<open>\<^verbatim>\<open>interface FlipSetting\<close>; the field \<^verbatim>\<open>size\<close> is named \<open>size_type\<close>.\<close>

record FlipSetting =
  startPage :: real
  size_type :: string
  width :: real
  height :: real
  minWidth :: real
  maxWidth :: real
  minHeight :: real
  maxHeight :: real
  drawShadow :: bool
  flippingTime :: real
  usePortrait :: bool
  startZIndex :: real
  autoSize :: bool
  maxShadowOpacity :: real
  showCover :: bool
  mobileScrollSupport :: bool
  clickEventForward :: bool
  useMouseEvents :: bool
  swipeDistance :: real
  showPageCorners :: bool
  disableFlipByClick :: bool
  singlePage :: bool

text \<open>
  The argument \<^verbatim>\<open>userSetting: Record<string, any>\<close>, restricted to the keys of
  \<^verbatim>\<open>FlipSetting\<close> with values of the declared type: a key is present (\<open>Some\<close>) or
  absent (\<open>None\<close>).
\<close>

record UserSetting =
  u_startPage :: "real option"
  u_size :: "string option"
  u_width :: "real option"
  u_height :: "real option"
  u_minWidth :: "real option"
  u_maxWidth :: "real option"
  u_minHeight :: "real option"
  u_maxHeight :: "real option"
  u_drawShadow :: "bool option"
  u_flippingTime :: "real option"
  u_usePortrait :: "bool option"
  u_startZIndex :: "real option"
  u_autoSize :: "bool option"
  u_maxShadowOpacity :: "real option"
  u_showCover :: "bool option"
  u_mobileScrollSupport :: "bool option"
  u_clickEventForward :: "bool option"
  u_useMouseEvents :: "bool option"
  u_swipeDistance :: "real option"
  u_showPageCorners :: "bool option"
  u_disableFlipByClick :: "bool option"
  u_singlePage :: "bool option"

text \<open>The object literal \<^verbatim>\<open>{}\<close>.\<close>

definition no_settings :: UserSetting where
  "no_settings =
     \<lparr>u_startPage = None, u_size = None, u_width = None, u_height = None,
      u_minWidth = None, u_maxWidth = None, u_minHeight = None, u_maxHeight = None,
      u_drawShadow = None, u_flippingTime = None, u_usePortrait = None, u_startZIndex = None,
      u_autoSize = None, u_maxShadowOpacity = None, u_showCover = None,
      u_mobileScrollSupport = None, u_clickEventForward = None, u_useMouseEvents = None,
      u_swipeDistance = None, u_showPageCorners = None, u_disableFlipByClick = None,
      u_singlePage = None\<rparr>"

text \<open>The initial value of the field \<^verbatim>\<open>_default\<close>.\<close>

definition default_FlipSetting :: FlipSetting where
  "default_FlipSetting =
     \<lparr>startPage = 0, size_type = FIXED, width = 0, height = 0,
      minWidth = 0, maxWidth = 0, minHeight = 0, maxHeight = 0,
      drawShadow = True, flippingTime = 1000, usePortrait = True, startZIndex = 0,
      autoSize = True, maxShadowOpacity = 1, showCover = False,
      mobileScrollSupport = True, clickEventForward = True, useMouseEvents = True,
      swipeDistance = 30, showPageCorners = True, disableFlipByClick = False,
      singlePage = False\<rparr>"

text \<open>\<^verbatim>\<open>Object.assign(result, userSetting)\<close>: every key present in the source overwrites.\<close>

definition pick :: "'a option \<Rightarrow> 'a \<Rightarrow> 'a" where
  "pick v old = (case v of Some new \<Rightarrow> new | None \<Rightarrow> old)"

definition assign :: "FlipSetting \<Rightarrow> UserSetting \<Rightarrow> FlipSetting" where
  "assign r u =
     \<lparr>startPage = pick (u_startPage u) (startPage r),
      size_type = pick (u_size u) (size_type r),
      width = pick (u_width u) (width r),
      height = pick (u_height u) (height r),
      minWidth = pick (u_minWidth u) (minWidth r),
      maxWidth = pick (u_maxWidth u) (maxWidth r),
      minHeight = pick (u_minHeight u) (minHeight r),
      maxHeight = pick (u_maxHeight u) (maxHeight r),
      drawShadow = pick (u_drawShadow u) (drawShadow r),
      flippingTime = pick (u_flippingTime u) (flippingTime r),
      usePortrait = pick (u_usePortrait u) (usePortrait r),
      startZIndex = pick (u_startZIndex u) (startZIndex r),
      autoSize = pick (u_autoSize u) (autoSize r),
      maxShadowOpacity = pick (u_maxShadowOpacity u) (maxShadowOpacity r),
      showCover = pick (u_showCover u) (showCover r),
      mobileScrollSupport = pick (u_mobileScrollSupport u) (mobileScrollSupport r),
      clickEventForward = pick (u_clickEventForward u) (clickEventForward r),
      useMouseEvents = pick (u_useMouseEvents u) (useMouseEvents r),
      swipeDistance = pick (u_swipeDistance u) (swipeDistance r),
      showPageCorners = pick (u_showPageCorners u) (showPageCorners r),
      disableFlipByClick = pick (u_disableFlipByClick u) (disableFlipByClick r),
      singlePage = pick (u_singlePage u) (singlePage r)\<rparr>"

text \<open>
  Objects live in a store, so that the object \<^verbatim>\<open>getSettings\<close> returns can be compared
  with the one the instance holds. A \<^verbatim>\<open>Settings\<close> instance is the reference in its field
  \<^verbatim>\<open>_default\<close>; \<open>new_Settings\<close> is the constructor, given the address of the new object.
\<close>

type_synonym ref = nat
type_synonym store = "ref \<Rightarrow> FlipSetting"

record Settings =
  default_ref :: ref

definition new_Settings :: "ref \<Rightarrow> store \<Rightarrow> Settings \<times> store" where
  "new_Settings r h = (\<lparr>default_ref = r\<rparr>, h(r := default_FlipSetting))"

text \<open>
  The three errors \<^verbatim>\<open>getSettings\<close> throws, with the messages
  \<^verbatim>\<open>Invalid size type. Available only "fixed" and "stretch" value\<close>,
  \<^verbatim>\<open>Invalid width or height\<close> and \<^verbatim>\<open>Invalid flipping time\<close>.
\<close>

datatype settings_error = InvalidSizeType | InvalidWidthOrHeight | InvalidFlippingTime

text \<open>
  \<^verbatim>\<open>getSettings\<close>: the result (an error, or the reference returned) and the store after
  the call. The assignment has happened when an error is thrown.
\<close>

definition getSettings :: "Settings \<Rightarrow> UserSetting \<Rightarrow> store \<Rightarrow> (settings_error + ref) \<times> store" where
  "getSettings this userSetting h =
     (let result = default_ref this;
          h1 = h(result := assign (h result) userSetting);
          r1 = h1 result
      in if size_type r1 \<noteq> STRETCH \<and> size_type r1 \<noteq> FIXED then (Inl InvalidSizeType, h1)
         else if width r1 \<le> 0 \<or> height r1 \<le> 0 then (Inl InvalidWidthOrHeight, h1)
         else if flippingTime r1 \<le> 0 then (Inl InvalidFlippingTime, h1)
         else if size_type r1 = STRETCH then
           let r2 = (if minWidth r1 \<le> 0 then r1\<lparr>minWidth := 100\<rparr> else r1);
               r3 = (if maxWidth r2 < minWidth r2 then r2\<lparr>maxWidth := 2000\<rparr> else r2);
               r4 = (if minHeight r3 \<le> 0 then r3\<lparr>minHeight := 100\<rparr> else r3);
               r5 = (if maxHeight r4 < minHeight r4 then r4\<lparr>maxHeight := 2000\<rparr> else r4)
           in (Inr result, h1(result := r5))
         else
           (Inr result,
            h1(result := r1\<lparr>minWidth := width r1, maxWidth := width r1,
                               minHeight := height r1, maxHeight := height r1\<rparr>)))"


section \<open>Gesture handling (the abstract class UI)\<close>

text \<open>
  Modelled from the spec: the enums \<^verbatim>\<open>FlipCorner\<close> and \<^verbatim>\<open>FlippingState\<close>, which the
  class imports from \<^verbatim>\<open>Flip/Flip\<close>, a file that is not among the sources.
  \<^verbatim>\<open>FlipCorner\<close> is two-valued (top, bottom); \<^verbatim>\<open>FlippingState\<close> has the four states
  \<^verbatim>\<open>user_fold\<close>, \<^verbatim>\<open>fold_corner\<close>, \<^verbatim>\<open>flipping\<close> and \<^verbatim>\<open>read\<close> that the README lists. The
  handlers only compare a state with \<open>READ\<close>.
\<close>

datatype FlipCorner = TOP | BOTTOM

datatype FlippingState = USER_FOLD | FOLD_CORNER | FLIPPING | READ

text \<open>\<^verbatim>\<open>interface PageRect\<close>.\<close>

record PageRect =
  page_left :: real
  page_top :: real
  page_width :: real
  page_height :: real
  pageWidth :: real

text \<open>\<^verbatim>\<open>type SwipeData = { point: Point; time: number }\<close>; \<^verbatim>\<open>Date.now()\<close> is an integer.\<close>

record SwipeData =
  point :: Point
  time :: int

text \<open>
  The mutable fields of a \<^verbatim>\<open>UI\<close> instance, and \<^verbatim>\<open>swipeDistance\<close>, which the constructor
  copies from the settings (here \<open>ui_swipeDistance\<close>).
\<close>

record UI =
  touchPoint :: "SwipeData option"
  swipeDetected :: bool
  ui_swipeDistance :: real

definition swipeTimeout :: int where
  "swipeTimeout = 250"

text \<open>
  What a handler does to the outside: the methods of \<^verbatim>\<open>PageFlip\<close> it calls,
  \<^verbatim>\<open>e.preventDefault()\<close>, and \<^verbatim>\<open>setTimeout\<close> of the corner-drag callback with the
  position it has captured. \<^verbatim>\<open>userStop(pos)\<close> without a second argument is
  \<open>UserStop pos None\<close>.
\<close>

datatype Call =
    StartUserTouch Point
  | UserMove Point bool
  | UserStop Point "bool option"
  | FlipNext FlipCorner
  | FlipPrev FlipCorner
  | PreventDefault
  | SetTimeout Point int

text \<open>
  What a handler reads from the outside while it runs: \<^verbatim>\<open>app.getSettings()\<close>,
  \<^verbatim>\<open>app.getRender().getRect()\<close>, \<^verbatim>\<open>distElement.getBoundingClientRect()\<close>, \<^verbatim>\<open>Date.now()\<close>,
  and \<^verbatim>\<open>app.getState()\<close>, which may change with the calls the handler has made on the
  engine so far and is therefore a function of them.
\<close>

record Env =
  getSettings_app :: FlipSetting
  getRect :: PageRect
  getBoundingClientRect :: Rect
  getState :: "Call list \<Rightarrow> FlippingState"
  now :: int

text \<open>The events: a touch has client coordinates; \<open>target\<close> is the tag name of \<^verbatim>\<open>e.target\<close>.\<close>

record Touch =
  clientX :: real
  clientY :: real

record TouchEvent =
  target :: string
  changedTouches :: "Touch list"
  cancelable :: bool

record MouseEvent =
  mouse_target :: string
  mouse_clientX :: real
  mouse_clientY :: real

definition getMousePos :: "Env \<Rightarrow> real \<Rightarrow> real \<Rightarrow> Point" where
  "getMousePos env x y =
     (let rect = getBoundingClientRect env
      in \<lparr>px = x - rect_left rect, py = y - rect_top rect\<rparr>)"

text \<open>\<^verbatim>\<open>String.prototype.toLowerCase\<close> on the ASCII letters of a tag name.\<close>

definition toLowerCase :: "string \<Rightarrow> string" where
  "toLowerCase s =
     map (\<lambda>c. if (65::nat) \<le> of_char c \<and> of_char c \<le> (90::nat)
               then char_of (of_char c + (32::nat)) else c) s"

definition checkTarget :: "Env \<Rightarrow> string \<Rightarrow> bool" where
  "checkTarget env targer =
     (if \<not> clickEventForward (getSettings_app env) then True
      else if toLowerCase targer \<in> set [''a'', ''button''] then False
      else True)"

definition onMouseDown :: "Env \<Rightarrow> UI \<Rightarrow> MouseEvent \<Rightarrow> Call list \<times> UI" where
  "onMouseDown env ui e =
     (if checkTarget env (mouse_target e)
      then let pos = getMousePos env (mouse_clientX e) (mouse_clientY e)
           in ([StartUserTouch pos, PreventDefault], ui)
      else ([], ui))"

text \<open>The callback \<^verbatim>\<open>onTouchStart\<close> hands to \<^verbatim>\<open>setTimeout\<close>, run when the timer fires.\<close>

definition timerCallback :: "Point \<Rightarrow> UI \<Rightarrow> Call list \<times> UI" where
  "timerCallback pos ui =
     (if touchPoint ui \<noteq> None \<and> \<not> swipeDetected ui then ([StartUserTouch pos], ui)
      else ([], ui))"

definition onTouchStart :: "Env \<Rightarrow> UI \<Rightarrow> TouchEvent \<Rightarrow> Call list \<times> UI" where
  "onTouchStart env ui e =
     (if checkTarget env (target e)
      then (case changedTouches e of
              [] \<Rightarrow> ([], ui)
            | t # _ \<Rightarrow>
                let pos = getMousePos env (clientX t) (clientY t);
                    ui' = ui\<lparr>touchPoint := Some \<lparr>point = pos, time = now env\<rparr>,
                              swipeDetected := False\<rparr>;
                    timer = (if \<not> singlePage (getSettings_app env)
                             then [SetTimeout pos swipeTimeout] else []);
                    prevent = (if \<not> mobileScrollSupport (getSettings_app env)
                               then [PreventDefault] else [])
                in (timer @ prevent, ui'))
      else ([], ui))"

definition onMouseUp :: "Env \<Rightarrow> UI \<Rightarrow> MouseEvent \<Rightarrow> Call list \<times> UI" where
  "onMouseUp env ui e =
     (let pos = getMousePos env (mouse_clientX e) (mouse_clientY e)
      in ([UserStop pos None], ui))"

definition onMouseMove :: "Env \<Rightarrow> UI \<Rightarrow> MouseEvent \<Rightarrow> Call list \<times> UI" where
  "onMouseMove env ui e =
     (let pos = getMousePos env (mouse_clientX e) (mouse_clientY e)
      in ([UserMove pos False], ui))"

text \<open>
  \<^verbatim>\<open>onTouchMove\<close>. \<open>earlySwipe\<close> is the first \<^verbatim>\<open>if\<close> block (the early swipe detection):
  \<open>Some\<close> of what the handler does when the block returns, \<open>None\<close> when control falls
  through to the rest of the handler.
\<close>

definition earlySwipe :: "Env \<Rightarrow> UI \<Rightarrow> TouchEvent \<Rightarrow> Point \<Rightarrow> (Call list \<times> UI) option" where
  "earlySwipe env ui e pos =
     (case touchPoint ui of
        None \<Rightarrow> None
      | Some tp \<Rightarrow>
          if \<not> swipeDetected ui then
            let dx = px pos - px (point tp);
                absDx = \<bar>dx\<bar>;
                absDy = \<bar>py pos - py (point tp)\<bar>
            in if absDx \<ge> ui_swipeDistance ui \<and> absDx > absDy * 1.2 then
                 let prevent = (if cancelable e then [PreventDefault] else []);
                     corner = (if py (point tp) < page_height (getRect env) / 2
                               then TOP else BOTTOM);
                     flip = (if dx > 0 then [FlipPrev corner] else [FlipNext corner])
                 in Some (prevent @ flip, ui\<lparr>swipeDetected := True, touchPoint := None\<rparr>)
               else None
          else None)"

definition onTouchMove :: "Env \<Rightarrow> UI \<Rightarrow> TouchEvent \<Rightarrow> Call list \<times> UI" where
  "onTouchMove env ui e =
     (case changedTouches e of
        [] \<Rightarrow> ([], ui)
      | t # _ \<Rightarrow>
          let pos = getMousePos env (clientX t) (clientY t)
          in (case earlySwipe env ui e pos of
                Some r \<Rightarrow> r
              | None \<Rightarrow>
                  (if swipeDetected ui then ((if cancelable e then [PreventDefault] else []), ui)
                   else if mobileScrollSupport (getSettings_app env) then
                     let move = (case touchPoint ui of
                                   None \<Rightarrow> []
                                 | Some tp \<Rightarrow>
                                     if \<bar>px (point tp) - px pos\<bar> > 10 \<or> getState env [] \<noteq> READ
                                     then (if cancelable e then [UserMove pos True] else [])
                                     else []);
                         prevent = (if getState env move \<noteq> READ then [PreventDefault] else [])
                     in (move @ prevent, ui)
                   else ([UserMove pos True], ui))))"

definition onTouchEnd :: "Env \<Rightarrow> UI \<Rightarrow> TouchEvent \<Rightarrow> Call list \<times> UI" where
  "onTouchEnd env ui e =
     (case changedTouches e of
        [] \<Rightarrow> ([], ui)
      | t # _ \<Rightarrow>
          let pos = getMousePos env (clientX t) (clientY t)
          in if swipeDetected ui
             then ([UserStop pos (Some True)], ui\<lparr>swipeDetected := False\<rparr>)
             else
               (case touchPoint ui of
                  None \<Rightarrow> ([UserStop pos (Some False)], ui)
                | Some tp \<Rightarrow>
                    let dx = px pos - px (point tp);
                        absDx = \<bar>dx\<bar>;
                        distY = \<bar>py pos - py (point tp)\<bar>;
                        dt = now env - time tp;
                        fallback = (absDx > ui_swipeDistance ui \<and>
                                    distY < ui_swipeDistance ui * 2 \<and> dt < swipeTimeout);
                        corner = (if py (point tp) < page_height (getRect env) / 2
                                  then TOP else BOTTOM);
                        flip = (if fallback
                                then (if dx > 0 then [FlipPrev corner] else [FlipNext corner])
                                else []);
                        tapZone = (\<not> fallback \<and> singlePage (getSettings_app env) \<and>
                                   absDx < 15 \<and> distY < 15 \<and> dt < 400);
                        pw = pageWidth (getRect env);
                        tap = (if tapZone
                               then (if px pos < pw * 0.25 then [FlipPrev BOTTOM]
                                     else if px pos > pw * 0.75 then [FlipNext BOTTOM]
                                     else [])
                               else []);
                        isSwipe = (fallback \<or>
                                   (tapZone \<and> (px pos < pw * 0.25 \<or> px pos > pw * 0.75)))
                    in (flip @ tap @ [UserStop pos (Some isSwipe)], ui\<lparr>touchPoint := None\<rparr>)))"

text \<open>
  The listeners as one step function over the events the instance can receive, and the
  run of a list of events, each with what the outside reports during its handler. The
  calls of a run are those of its handlers in order.
\<close>

datatype Event =
    MouseDown MouseEvent
  | MouseMove MouseEvent
  | MouseUp MouseEvent
  | TouchStart TouchEvent
  | TouchMove TouchEvent
  | TouchEnd TouchEvent
  | TimerFired Point

fun handle :: "Env \<Rightarrow> UI \<Rightarrow> Event \<Rightarrow> Call list \<times> UI" where
  "handle env ui (MouseDown e) = onMouseDown env ui e"
| "handle env ui (MouseMove e) = onMouseMove env ui e"
| "handle env ui (MouseUp e) = onMouseUp env ui e"
| "handle env ui (TouchStart e) = onTouchStart env ui e"
| "handle env ui (TouchMove e) = onTouchMove env ui e"
| "handle env ui (TouchEnd e) = onTouchEnd env ui e"
| "handle env ui (TimerFired pos) = timerCallback pos ui"

fun run :: "UI \<Rightarrow> (Env \<times> Event) list \<Rightarrow> Call list \<times> UI" where
  "run ui [] = ([], ui)"
| "run ui ((env, ev) # rest) =
     (let (calls, ui') = handle env ui ev;
          (calls', ui'') = run ui' rest
      in (calls @ calls', ui''))"


section \<open>Notions used to state the properties\<close>

text \<open>The point at parameter \<open>t\<close> of the straight segment from \<open>a\<close> to \<open>b\<close>.\<close>

definition interpolate :: "Point \<Rightarrow> Point \<Rightarrow> real \<Rightarrow> Point" where
  "interpolate a b t = \<lparr>px = px a + (px b - px a) * t, py = py a + (py b - py a) * t\<rparr>"

definition lengthLine :: "Point \<Rightarrow> Point \<Rightarrow> real" where
  "lengthLine a b = max \<bar>px a - px b\<bar> \<bar>py a - py b\<bar>"

definition totalSteps :: "Point \<Rightarrow> Point \<Rightarrow> int" where
  "totalSteps a b = min \<lceil>lengthLine a b\<rceil> 60"

text \<open>The Euclidean distance of two points with finite coordinates.\<close>

definition distance :: "Point \<Rightarrow> Point \<Rightarrow> real" where
  "distance c p = sqrt ((px p - px c)\<^sup>2 + (py p - py c)\<^sup>2)"

definition mkPoint :: "real \<Rightarrow> real \<Rightarrow> Point" where
  "mkPoint a b = \<lparr>px = a, py = b\<rparr>"

text \<open>
  Calls that navigate, and the call that starts a corner drag.
\<close>

fun is_navigation :: "Call \<Rightarrow> bool" where
  "is_navigation (FlipNext c) = True"
| "is_navigation (FlipPrev c) = True"
| "is_navigation other = False"

fun is_startUserTouch :: "Call \<Rightarrow> bool" where
  "is_startUserTouch (StartUserTouch p) = True"
| "is_startUserTouch other = False"

text \<open>
  The corner and the command of a swipe that started at \<open>origin\<close> and has reached \<open>pos\<close>:
  the top corner when the origin is above half the height of the widget, the previous
  page when the pointer has moved to the right.
\<close>

definition swipeCorner :: "Env \<Rightarrow> Point \<Rightarrow> FlipCorner" where
  "swipeCorner env origin = (if py origin < page_height (getRect env) / 2 then TOP else BOTTOM)"

definition swipeCommand :: "Env \<Rightarrow> Point \<Rightarrow> Point \<Rightarrow> Call" where
  "swipeCommand env origin pos =
     (if px pos - px origin > 0 then FlipPrev (swipeCorner env origin)
      else FlipNext (swipeCorner env origin))"

text \<open>
  The events that can follow a pointer-down inside one gesture: moves and timer firings
  while the session is open, and the events of the rest of a gesture that armed no timer.
\<close>

fun is_move_or_timer :: "Event \<Rightarrow> bool" where
  "is_move_or_timer (TouchMove e) = True"
| "is_move_or_timer (TimerFired p) = True"
| "is_move_or_timer other = False"

fun is_touch_move :: "Event \<Rightarrow> bool" where
  "is_touch_move (TouchMove e) = True"
| "is_touch_move other = False"

fun is_move_or_up :: "Event \<Rightarrow> bool" where
  "is_move_or_up (TouchMove e) = True"
| "is_move_or_up (TouchEnd e) = True"
| "is_move_or_up (MouseMove e) = True"
| "is_move_or_up (MouseUp e) = True"
| "is_move_or_up other = False"

text \<open>A fresh instance of the gesture handler: no session, nothing resolved.\<close>

definition new_UI :: "real \<Rightarrow> UI" where
  "new_UI d = \<lparr>touchPoint = None, swipeDetected = False, ui_swipeDistance = d\<rparr>"

text \<open>
  The keys of a settings object and the value stored under a key, to speak about ``any
  key''. The four bounds are the keys the validation of \<^verbatim>\<open>getSettings\<close> rewrites.
\<close>

datatype setting_value = NumV real | BoolV bool | StrV string

datatype setting_key =
    K_startPage | K_size | K_width | K_height
  | K_minWidth | K_maxWidth | K_minHeight | K_maxHeight
  | K_drawShadow | K_flippingTime | K_usePortrait | K_startZIndex
  | K_autoSize | K_maxShadowOpacity | K_showCover | K_mobileScrollSupport
  | K_clickEventForward | K_useMouseEvents | K_swipeDistance | K_showPageCorners
  | K_disableFlipByClick | K_singlePage

fun lookup :: "FlipSetting \<Rightarrow> setting_key \<Rightarrow> setting_value" where
  "lookup r K_startPage = NumV (startPage r)"
| "lookup r K_size = StrV (size_type r)"
| "lookup r K_width = NumV (width r)"
| "lookup r K_height = NumV (height r)"
| "lookup r K_minWidth = NumV (minWidth r)"
| "lookup r K_maxWidth = NumV (maxWidth r)"
| "lookup r K_minHeight = NumV (minHeight r)"
| "lookup r K_maxHeight = NumV (maxHeight r)"
| "lookup r K_drawShadow = BoolV (drawShadow r)"
| "lookup r K_flippingTime = NumV (flippingTime r)"
| "lookup r K_usePortrait = BoolV (usePortrait r)"
| "lookup r K_startZIndex = NumV (startZIndex r)"
| "lookup r K_autoSize = BoolV (autoSize r)"
| "lookup r K_maxShadowOpacity = NumV (maxShadowOpacity r)"
| "lookup r K_showCover = BoolV (showCover r)"
| "lookup r K_mobileScrollSupport = BoolV (mobileScrollSupport r)"
| "lookup r K_clickEventForward = BoolV (clickEventForward r)"
| "lookup r K_useMouseEvents = BoolV (useMouseEvents r)"
| "lookup r K_swipeDistance = NumV (swipeDistance r)"
| "lookup r K_showPageCorners = BoolV (showPageCorners r)"
| "lookup r K_disableFlipByClick = BoolV (disableFlipByClick r)"
| "lookup r K_singlePage = BoolV (singlePage r)"

fun given :: "UserSetting \<Rightarrow> setting_key \<Rightarrow> setting_value option" where
  "given u K_startPage = map_option NumV (u_startPage u)"
| "given u K_size = map_option StrV (u_size u)"
| "given u K_width = map_option NumV (u_width u)"
| "given u K_height = map_option NumV (u_height u)"
| "given u K_minWidth = map_option NumV (u_minWidth u)"
| "given u K_maxWidth = map_option NumV (u_maxWidth u)"
| "given u K_minHeight = map_option NumV (u_minHeight u)"
| "given u K_maxHeight = map_option NumV (u_maxHeight u)"
| "given u K_drawShadow = map_option BoolV (u_drawShadow u)"
| "given u K_flippingTime = map_option NumV (u_flippingTime u)"
| "given u K_usePortrait = map_option BoolV (u_usePortrait u)"
| "given u K_startZIndex = map_option NumV (u_startZIndex u)"
| "given u K_autoSize = map_option BoolV (u_autoSize u)"
| "given u K_maxShadowOpacity = map_option NumV (u_maxShadowOpacity u)"
| "given u K_showCover = map_option BoolV (u_showCover u)"
| "given u K_mobileScrollSupport = map_option BoolV (u_mobileScrollSupport u)"
| "given u K_clickEventForward = map_option BoolV (u_clickEventForward u)"
| "given u K_useMouseEvents = map_option BoolV (u_useMouseEvents u)"
| "given u K_swipeDistance = map_option NumV (u_swipeDistance u)"
| "given u K_showPageCorners = map_option BoolV (u_showPageCorners u)"
| "given u K_disableFlipByClick = map_option BoolV (u_disableFlipByClick u)"
| "given u K_singlePage = map_option BoolV (u_singlePage u)"

definition bound_keys :: "setting_key set" where
  "bound_keys = {K_minWidth, K_maxWidth, K_minHeight, K_maxHeight}"

text \<open>
  The normalisation as the specification words it. \<open>effective u\<close> overlays the user's
  settings onto the documented defaults. In stretch mode a minimum that is not positive
  becomes 100 and a maximum below the minimum becomes 2000; in fixed mode the four bounds
  collapse to the width and the height.
\<close>

definition effective :: "UserSetting \<Rightarrow> FlipSetting" where
  "effective u = assign default_FlipSetting u"

definition stretch_bounds :: "FlipSetting \<Rightarrow> FlipSetting" where
  "stretch_bounds r =
     r\<lparr>minWidth := (if minWidth r \<le> 0 then 100 else minWidth r),
       maxWidth := (if maxWidth r < (if minWidth r \<le> 0 then 100 else minWidth r)
                    then 2000 else maxWidth r),
       minHeight := (if minHeight r \<le> 0 then 100 else minHeight r),
       maxHeight := (if maxHeight r < (if minHeight r \<le> 0 then 100 else minHeight r)
                     then 2000 else maxHeight r)\<rparr>"

definition fixed_bounds :: "FlipSetting \<Rightarrow> FlipSetting" where
  "fixed_bounds r =
     r\<lparr>minWidth := width r, maxWidth := width r, minHeight := height r, maxHeight := height r\<rparr>"

text \<open>A store to start from, and the call \<^verbatim>\<open>new Settings()\<close> at address 0.\<close>

definition empty_store :: store where
  "empty_store = (\<lambda>r. default_FlipSetting)"

definition fresh_Settings :: Settings where
  "fresh_Settings = fst (new_Settings 0 empty_store)"

definition fresh_store :: store where
  "fresh_store = snd (new_Settings 0 empty_store)"

text \<open>
  A widget for the scenarios: at the origin of the viewport, \<open>w\<close> by \<open>h\<close> with page width
  \<open>pw\<close>, default settings but for \<^verbatim>\<open>singlePage\<close>, an engine that is reading, the clock at
  \<open>t\<close>. A touch event with one cancelable touch, and a mouse event.
\<close>

definition widget_env :: "real \<Rightarrow> real \<Rightarrow> real \<Rightarrow> bool \<Rightarrow> int \<Rightarrow> Env" where
  "widget_env w h pw single t =
     \<lparr>getSettings_app = default_FlipSetting\<lparr>singlePage := single\<rparr>,
      getRect = \<lparr>page_left = 0, page_top = 0, page_width = w, page_height = h, pageWidth = pw\<rparr>,
      getBoundingClientRect = \<lparr>rect_left = 0, rect_top = 0, rect_width = w, rect_height = h\<rparr>,
      getState = (\<lambda>calls. READ),
      now = t\<rparr>"

definition touch_at :: "string \<Rightarrow> real \<Rightarrow> real \<Rightarrow> TouchEvent" where
  "touch_at tag a b =
     \<lparr>target = tag, changedTouches = [\<lparr>clientX = a, clientY = b\<rparr>], cancelable = True\<rparr>"

definition mouse_at :: "string \<Rightarrow> real \<Rightarrow> real \<Rightarrow> MouseEvent" where
  "mouse_at tag a b = \<lparr>mouse_target = tag, mouse_clientX = a, mouse_clientY = b\<rparr>"

section \<open>Properties of the geometry helpers\<close>

subsection \<open>Limiting a point to a circle\<close>

lemma LimitPointToCircle_inside:
  "distance c p \<le> r \<Longrightarrow> LimitPointToCircle c r p = of_Point p"
  by (simp add: LimitPointToCircle_def GetDistanceBetweenTwoPoint_def distance_def)

text \<open>
  When the divisor \<^verbatim>\<open>a - n\<close> is zero and the centre is not on the axis \<open>y = 0\<close>, the
  fallback \<^verbatim>\<open>y = radius\<close> is not taken and \<open>y\<close> is not a number: the test of the source
  is \<^verbatim>\<open>a - n + b === 0\<close>.
\<close>

lemma LimitPointToCircle_fallback_missed:
  "LimitPointToCircle (mkPoint 0 3) 5 (mkPoint 0 11) = \<lparr>nx = Fin 0, ny = NonFinite\<rparr>"
  by (simp add: LimitPointToCircle_def GetDistanceBetweenTwoPoint_def Let_def num_div_def
      num_map_def num_sqrt_def num_bind_def mkPoint_def)

text \<open>
  C3. The claim says that a point farther than \<open>r\<close> from the centre is moved to distance
  \<open>r\<close> from the centre, but for a zero divisor \<^verbatim>\<open>c.x - p.x\<close>. The function does not do
  so at two inputs whose divisor is not zero. With centre \<open>(10, 0)\<close>, radius \<open>5\<close> and the
  point \<open>(- 10, 0)\<close>, at distance \<open>20\<close>, it returns \<open>(- 15, 0)\<close>, at distance \<open>25\<close> from the
  centre: the sign flip \<^verbatim>\<open>x *= -1\<close> for a point with negative \<open>x\<close> leaves the circle
  when the centre is not on the axis \<open>x = 0\<close>. With centre \<open>(0, 6)\<close>, radius \<open>5\<close> and the
  point \<open>(6, 14)\<close>, at distance \<open>10\<close>, it returns \<open>(3, 5)\<close>, whose squared distance from
  the centre is \<open>10\<close>: the test \<^verbatim>\<open>a - n + b === 0\<close> takes the fallback \<^verbatim>\<open>y = radius\<close>
  although the divisor is \<open>- 6\<close>.
\<close>

theorem LimitPointToCircle_leaves_circle:
  "5 < distance (mkPoint 10 0) (mkPoint (- 10) 0) \<and>
   px (mkPoint 10 0) - px (mkPoint (- 10) 0) \<noteq> 0 \<and>
   LimitPointToCircle (mkPoint 10 0) 5 (mkPoint (- 10) 0) = of_Point (mkPoint (- 15) 0) \<and>
   distance (mkPoint 10 0) (mkPoint (- 15) 0) = 25 \<and>
   5 < distance (mkPoint 0 6) (mkPoint 6 14) \<and>
   px (mkPoint 0 6) - px (mkPoint 6 14) \<noteq> 0 \<and>
   LimitPointToCircle (mkPoint 0 6) 5 (mkPoint 6 14) = of_Point (mkPoint 3 5) \<and>
   (distance (mkPoint 0 6) (mkPoint 3 5))\<^sup>2 = 10"
  by (simp add: LimitPointToCircle_def GetDistanceBetweenTwoPoint_def Let_def num_div_def
      num_map_def num_sqrt_def num_bind_def mkPoint_def distance_def of_Point_def)

subsection \<open>Sampling the segment between two points\<close>

lemma cordsLoop_unfold:
  "cordsLoop p1 p2 tot i res =
     res @ map (\<lambda>k. interpolate p1 p2 (real_of_int k / real_of_int tot)) [i..tot]"
proof (induction p1 p2 tot i res rule: cordsLoop.induct)
  case (1 p1 p2 tot i res)
  show ?case
  proof (cases "i \<le> tot")
    case True
    then show ?thesis
      using "1.IH"[OF True refl]
      by (subst cordsLoop.simps) (simp add: Let_def upto_rec1[of i tot] interpolate_def)
  next
    case False
    then show ?thesis by (subst cordsLoop.simps) simp
  qed
qed

lemma totalSteps_pos: "0 < lengthLine a b \<Longrightarrow> 1 \<le> totalSteps a b"
  unfolding totalSteps_def by linarith

lemma GetCordsFromTwoPoint_unfold:
  "GetCordsFromTwoPoint a b =
     (if lengthLine a b = 0 then [a]
      else a # map (\<lambda>k. interpolate a b (real_of_int k / real_of_int (totalSteps a b)))
                 [1..totalSteps a b])"
  unfolding GetCordsFromTwoPoint_def Let_def cordsLoop_unfold lengthLine_def totalSteps_def
  by simp

lemma lengthLine_zero_iff: "lengthLine a b = 0 \<longleftrightarrow> a = b"
proof
  assume "lengthLine a b = 0"
  then have "\<bar>px a - px b\<bar> \<le> 0" "\<bar>py a - py b\<bar> \<le> 0"
    unfolding lengthLine_def by linarith+
  then have "px a = px b" "py a = py b" by simp_all
  then show "a = b" by simp
next
  assume "a = b"
  then show "lengthLine a b = 0" by (simp add: lengthLine_def)
qed

text \<open>
  C8. The result starts with \<open>a\<close>. When the longer axis \<open>lengthLine a b\<close> is positive,
  the result has \<open>min (ceil (lengthLine a b)) 60 + 1\<close> elements, element \<open>k\<close> is the point
  at parameter \<open>k / totalSteps\<close> of the segment from \<open>a\<close> to \<open>b\<close>, and the last one is
  \<open>b\<close>. When \<open>a\<close> and \<open>b\<close> coincide the result is \<open>[a]\<close>.
\<close>

theorem GetCordsFromTwoPoint_samples:
  "hd (GetCordsFromTwoPoint a b) = a \<and>
   (0 < lengthLine a b \<longrightarrow>
      length (GetCordsFromTwoPoint a b) = nat (min \<lceil>lengthLine a b\<rceil> 60) + 1 \<and>
      (\<forall>k \<le> nat (min \<lceil>lengthLine a b\<rceil> 60).
         GetCordsFromTwoPoint a b ! k =
           interpolate a b (real k / real_of_int (min \<lceil>lengthLine a b\<rceil> 60))) \<and>
      last (GetCordsFromTwoPoint a b) = b) \<and>
   (a = b \<longrightarrow> GetCordsFromTwoPoint a b = [a])"
proof (intro conjI impI allI)
  show "hd (GetCordsFromTwoPoint a b) = a"
    by (simp add: GetCordsFromTwoPoint_unfold)
next
  assume "a = b"
  then show "GetCordsFromTwoPoint a b = [a]"
    using lengthLine_zero_iff[of a b] by (simp add: GetCordsFromTwoPoint_unfold)
next
  assume pos: "0 < lengthLine a b"
  then have ts: "1 \<le> totalSteps a b" by (rule totalSteps_pos)
  have "length (GetCordsFromTwoPoint a b) = nat (totalSteps a b) + 1"
    using pos ts by (simp add: GetCordsFromTwoPoint_unfold)
  then show "length (GetCordsFromTwoPoint a b) = nat (min \<lceil>lengthLine a b\<rceil> 60) + 1"
    by (simp only: totalSteps_def)
next
  assume pos: "0 < lengthLine a b"
  then have ts: "1 \<le> totalSteps a b" by (rule totalSteps_pos)
  let ?f = "\<lambda>k. interpolate a b (real_of_int k / real_of_int (totalSteps a b))"
  have u: "[1..totalSteps a b] = [1..totalSteps a b - 1] @ [totalSteps a b]"
    using ts upto_rec2[of 1 "totalSteps a b"] by simp
  have nz: "real_of_int (totalSteps a b) \<noteq> 0" using ts by simp
  have "last (map ?f [1..totalSteps a b]) = ?f (totalSteps a b)"
    by (subst u) simp
  also have "\<dots> = b" using nz by (simp add: interpolate_def)
  finally have l: "last (map ?f [1..totalSteps a b]) = b" .
  have ne: "[1..totalSteps a b] \<noteq> []" using ts by simp
  show "last (GetCordsFromTwoPoint a b) = b"
    using pos ne l by (simp add: GetCordsFromTwoPoint_unfold)
next
  fix k
  assume pos: "0 < lengthLine a b" and k: "k \<le> nat (min \<lceil>lengthLine a b\<rceil> 60)"
  have ts: "1 \<le> totalSteps a b" using pos by (rule totalSteps_pos)
  let ?f = "\<lambda>k. interpolate a b (real_of_int k / real_of_int (totalSteps a b))"
  have "GetCordsFromTwoPoint a b ! k = interpolate a b (real k / real_of_int (totalSteps a b))"
  proof (cases k)
    case 0
    then show ?thesis using pos by (simp add: GetCordsFromTwoPoint_unfold interpolate_def)
  next
    case (Suc j)
    have j: "1 + int j \<le> totalSteps a b" using k Suc unfolding totalSteps_def by linarith
    have n: "[1..totalSteps a b] ! j = 1 + int j" using j by simp
    have lj: "j < length [1..totalSteps a b]" using j by simp
    have "GetCordsFromTwoPoint a b ! k = map ?f [1..totalSteps a b] ! j"
      using pos Suc by (simp add: GetCordsFromTwoPoint_unfold)
    also have "\<dots> = interpolate a b (real_of_int (1 + int j) / real_of_int (totalSteps a b))"
      using lj n by (simp only: nth_map)
    also have "real_of_int (1 + int j) = real k" using Suc by simp
    finally show ?thesis .
  qed
  then show "GetCordsFromTwoPoint a b ! k =
               interpolate a b (real k / real_of_int (min \<lceil>lengthLine a b\<rceil> 60))"
    by (simp only: totalSteps_def)
qed

theorem GetCordsFromTwoPoint_samples_witness:
  "0 < lengthLine (mkPoint 0 0) (mkPoint 2 1) \<and>
   length (GetCordsFromTwoPoint (mkPoint 0 0) (mkPoint 2 1)) = 3 \<and>
   GetCordsFromTwoPoint (mkPoint 0 0) (mkPoint 2 1) ! 1 = mkPoint 1 (1 / 2) \<and>
   last (GetCordsFromTwoPoint (mkPoint 0 0) (mkPoint 2 1)) = mkPoint 2 1 \<and>
   length (GetCordsFromTwoPoint (mkPoint 0 0) (mkPoint 500 3)) = 61 \<and>
   GetCordsFromTwoPoint (mkPoint 7 7) (mkPoint 7 7) = [mkPoint 7 7]"
proof -
  have L: "lengthLine (mkPoint 0 0) (mkPoint 2 1) = 2"
    by (simp add: lengthLine_def mkPoint_def)
  have c: "min \<lceil>lengthLine (mkPoint 0 0) (mkPoint 2 1)\<rceil> 60 = 2"
    by (simp add: L)
  have L2: "lengthLine (mkPoint 0 0) (mkPoint 500 3) = 500"
    by (simp add: lengthLine_def mkPoint_def)
  have c2: "min \<lceil>lengthLine (mkPoint 0 0) (mkPoint 500 3)\<rceil> 60 = 60"
    by (simp add: L2)
  note t = GetCordsFromTwoPoint_samples[of "mkPoint 0 0" "mkPoint 2 1"]
  have a1: "length (GetCordsFromTwoPoint (mkPoint 0 0) (mkPoint 2 1)) = 3"
    using t L c by simp
  have "\<forall>k \<le> 2. GetCordsFromTwoPoint (mkPoint 0 0) (mkPoint 2 1) ! k =
           interpolate (mkPoint 0 0) (mkPoint 2 1) (real k / 2)"
    using t L c by simp
  then have "GetCordsFromTwoPoint (mkPoint 0 0) (mkPoint 2 1) ! 1 =
           interpolate (mkPoint 0 0) (mkPoint 2 1) (real 1 / 2)"
    by (metis one_le_numeral)
  then have a2: "GetCordsFromTwoPoint (mkPoint 0 0) (mkPoint 2 1) ! 1 = mkPoint 1 (1 / 2)"
    by (simp add: interpolate_def mkPoint_def)
  have a3: "last (GetCordsFromTwoPoint (mkPoint 0 0) (mkPoint 2 1)) = mkPoint 2 1"
    using t L by simp
  have a4: "length (GetCordsFromTwoPoint (mkPoint 0 0) (mkPoint 500 3)) = 61"
    using GetCordsFromTwoPoint_samples[of "mkPoint 0 0" "mkPoint 500 3"] L2 c2 by simp
  have a5: "GetCordsFromTwoPoint (mkPoint 7 7) (mkPoint 7 7) = [mkPoint 7 7]"
    using GetCordsFromTwoPoint_samples[of "mkPoint 7 7" "mkPoint 7 7"] by simp
  show ?thesis using L a1 a2 a3 a4 a5 by simp
qed



section \<open>Properties of the gesture handlers\<close>

lemma onTouchMove_early:
  assumes "touchPoint ui = Some tp" "\<not> swipeDetected ui" "changedTouches e = t # ts"
    and "pos = getMousePos env (clientX t) (clientY t)"
    and "ui_swipeDistance ui \<le> \<bar>px pos - px (point tp)\<bar>"
    and "1.2 * \<bar>py pos - py (point tp)\<bar> < \<bar>px pos - px (point tp)\<bar>"
  shows "onTouchMove env ui e =
           ((if cancelable e then [PreventDefault] else []) @ [swipeCommand env (point tp) pos],
            ui\<lparr>swipeDetected := True, touchPoint := None\<rparr>)"
  using assms
  by (simp add: onTouchMove_def earlySwipe_def Let_def swipeCommand_def swipeCorner_def mult.commute)

lemma onTouchMove_resolved:
  assumes "touchPoint ui = None" "swipeDetected ui"
  shows "onTouchMove env ui e =
           (if changedTouches e \<noteq> [] \<and> cancelable e then [PreventDefault] else [], ui)"
  using assms by (simp add: onTouchMove_def earlySwipe_def Let_def split: list.splits)

lemma timerCallback_noop:
  "touchPoint ui = None \<or> swipeDetected ui \<Longrightarrow> timerCallback pos ui = ([], ui)"
  by (auto simp: timerCallback_def)

lemma handle_resolved:
  assumes "touchPoint ui = None" "swipeDetected ui" "is_move_or_timer ev"
  shows "snd (handle env ui ev) = ui \<and> set (fst (handle env ui ev)) \<subseteq> {PreventDefault}"
  using assms by (cases ev) (auto simp: onTouchMove_resolved timerCallback_noop)

lemma run_resolved:
  assumes "touchPoint ui = None" "swipeDetected ui" "\<forall>x \<in> set evs. is_move_or_timer (snd x)"
  shows "snd (run ui evs) = ui \<and> set (fst (run ui evs)) \<subseteq> {PreventDefault}"
  using assms
proof (induction evs)
  case Nil
  then show ?case by simp
next
  case (Cons x evs)
  obtain env ev where x: "x = (env, ev)" by (cases x)
  have h: "snd (handle env ui ev) = ui \<and> set (fst (handle env ui ev)) \<subseteq> {PreventDefault}"
    using Cons.prems x by (intro handle_resolved) simp_all
  have r: "snd (run ui evs) = ui \<and> set (fst (run ui evs)) \<subseteq> {PreventDefault}"
    using Cons by simp
  show ?case using h r x by (auto simp: split_beta Let_def)
qed

lemma touch_move_is_move_or_timer: "is_touch_move ev \<Longrightarrow> is_move_or_timer ev"
  by (cases ev) simp_all

lemma no_navigation_in_prevent: "set cs \<subseteq> {PreventDefault} \<Longrightarrow> filter is_navigation cs = []"
  by (induction cs) auto

text \<open>
  C1. In an open, unresolved session with origin \<open>point tp\<close>, a touch-move to \<open>pos\<close> whose
  horizontal travel is at least the swipe distance and more than 1.2 times the vertical
  travel dispatches exactly one navigation command: \<^verbatim>\<open>flipPrev\<close> when \<open>dx > 0\<close>, else
  \<^verbatim>\<open>flipNext\<close>, with the top corner when the origin is above half the height of the widget
  and the bottom corner otherwise. The session is then resolved and its slot cleared, and
  no later move of the session dispatches a navigation command.
\<close>

theorem onTouchMove_resolves_swipe:
  assumes "touchPoint ui = Some tp" and "\<not> swipeDetected ui" and "changedTouches e = t # ts"
    and "pos = getMousePos env (clientX t) (clientY t)"
    and "ui_swipeDistance ui \<le> \<bar>px pos - px (point tp)\<bar>"
    and "1.2 * \<bar>py pos - py (point tp)\<bar> < \<bar>px pos - px (point tp)\<bar>"
    and "\<forall>x \<in> set later. is_touch_move (snd x)"
  shows "filter is_navigation (fst (onTouchMove env ui e)) =
           [if px pos - px (point tp) > 0
            then FlipPrev (if py (point tp) < page_height (getRect env) / 2 then TOP else BOTTOM)
            else FlipNext (if py (point tp) < page_height (getRect env) / 2 then TOP else BOTTOM)] \<and>
         swipeDetected (snd (onTouchMove env ui e)) \<and>
         touchPoint (snd (onTouchMove env ui e)) = None \<and>
         filter is_navigation (fst (run (snd (onTouchMove env ui e)) later)) = []"
proof -
  note m = onTouchMove_early[OF assms(1-6)]
  let ?ui = "ui\<lparr>swipeDetected := True, touchPoint := None\<rparr>"
  have a: "filter is_navigation (fst (onTouchMove env ui e)) = [swipeCommand env (point tp) pos]"
    by (simp add: m swipeCommand_def)
  have l: "\<forall>x \<in> set later. is_move_or_timer (snd x)"
    using assms(7) touch_move_is_move_or_timer by blast
  have "set (fst (run ?ui later)) \<subseteq> {PreventDefault}"
    using run_resolved[of ?ui later] l by simp
  then have b: "filter is_navigation (fst (run ?ui later)) = []"
    by (rule no_navigation_in_prevent)
  show ?thesis using a b by (simp add: m swipeCommand_def swipeCorner_def)
qed

lemma onTouchEnd_resolved:
  assumes "swipeDetected ui" "changedTouches e = t # ts"
  shows "onTouchEnd env ui e =
           ([UserStop (getMousePos env (clientX t) (clientY t)) (Some True)],
            ui\<lparr>swipeDetected := False\<rparr>)"
  using assms by (simp add: onTouchEnd_def Let_def)

text \<open>
  Inside one session the resolution holds: the timer callback does nothing whenever the
  session slot is null or the resolved flag is set, the touch-end handler of a resolved
  session reports \<^verbatim>\<open>userStop(pos, true)\<close>, clears the flag and returns, and between the
  resolving move and the touch-end no move and no timer firing starts a corner drag or
  navigates.
\<close>

lemma resolved_session_until_touch_end:
  assumes "touchPoint ui = Some tp" and "\<not> swipeDetected ui" and "changedTouches e = t # ts"
    and "pos = getMousePos env (clientX t) (clientY t)"
    and "ui_swipeDistance ui \<le> \<bar>px pos - px (point tp)\<bar>"
    and "1.2 * \<bar>py pos - py (point tp)\<bar> < \<bar>px pos - px (point tp)\<bar>"
    and "\<forall>x \<in> set later. is_move_or_timer (snd x)"
    and "changedTouches e' = t' # ts'"
  shows "(\<forall>q u. touchPoint u = None \<or> swipeDetected u \<longrightarrow> timerCallback q u = ([], u)) \<and>
         (\<forall>u. swipeDetected u \<longrightarrow>
            onTouchEnd env' u e' =
              ([UserStop (getMousePos env' (clientX t') (clientY t')) (Some True)],
               u\<lparr>swipeDetected := False\<rparr>)) \<and>
         filter is_startUserTouch (fst (run (snd (onTouchMove env ui e)) later)) = [] \<and>
         filter is_navigation (fst (run (snd (onTouchMove env ui e)) later)) = [] \<and>
         fst (onTouchEnd env' (snd (run (snd (onTouchMove env ui e)) later)) e') =
           [UserStop (getMousePos env' (clientX t') (clientY t')) (Some True)] \<and>
         touchPoint (snd (onTouchEnd env' (snd (run (snd (onTouchMove env ui e)) later)) e')) = None \<and>
         \<not> swipeDetected (snd (onTouchEnd env' (snd (run (snd (onTouchMove env ui e)) later)) e')) \<and>
         (\<forall>q. fst (timerCallback q
                 (snd (onTouchEnd env' (snd (run (snd (onTouchMove env ui e)) later)) e'))) = [])"
proof -
  let ?ui = "ui\<lparr>swipeDetected := True, touchPoint := None\<rparr>"
  have m: "snd (onTouchMove env ui e) = ?ui"
    using onTouchMove_early[OF assms(1-6)] by simp
  have r: "snd (run ?ui later) = ?ui" "set (fst (run ?ui later)) \<subseteq> {PreventDefault}"
    using run_resolved[of ?ui later] assms(7) by simp_all
  have s: "filter is_startUserTouch (fst (run ?ui later)) = []"
    using r(2) by (induction "fst (run ?ui later)") (auto simp: filter_empty_conv)
  have n: "filter is_navigation (fst (run ?ui later)) = []"
    using r(2) by (rule no_navigation_in_prevent)
  have e: "onTouchEnd env' ?ui e' =
             ([UserStop (getMousePos env' (clientX t') (clientY t')) (Some True)],
              ?ui\<lparr>swipeDetected := False\<rparr>)"
    using onTouchEnd_resolved[of ?ui e' t' ts' env'] assms(8) by simp
  have g1: "\<forall>q u. touchPoint u = None \<or> swipeDetected u \<longrightarrow> timerCallback q u = ([], u)"
    using timerCallback_noop by blast
  have g2: "\<forall>u. swipeDetected u \<longrightarrow>
            onTouchEnd env' u e' =
              ([UserStop (getMousePos env' (clientX t') (clientY t')) (Some True)],
               u\<lparr>swipeDetected := False\<rparr>)"
    using onTouchEnd_resolved[OF _ assms(8)] by blast
  show ?thesis
    unfolding m r(1) e using g1 g2 s n by (simp add: timerCallback_def)
qed

text \<open>
  C4. In single-page mode, when an open, unresolved session ends without being classified
  as a swipe, with both displacements under 15 px and under 400 ms: \<^verbatim>\<open>flipPrev(BOTTOM)\<close>
  fires once when \<open>x\<close> is strictly less than a quarter of the page width,
  \<^verbatim>\<open>flipNext(BOTTOM)\<close> once when it is strictly greater than three quarters of it, and
  nothing navigates otherwise; \<open>x\<close> exactly at a quarter or at three quarters of a page
  width (not negative) does not navigate.
\<close>

theorem onTouchEnd_tap_zone:
  assumes "singlePage (getSettings_app env)"
    and "touchPoint ui = Some tp" and "\<not> swipeDetected ui" and "changedTouches e = t # ts"
    and "pos = getMousePos env (clientX t) (clientY t)"
    and "\<not> (ui_swipeDistance ui < \<bar>px pos - px (point tp)\<bar> \<and>
            \<bar>py pos - py (point tp)\<bar> < 2 * ui_swipeDistance ui \<and>
            now env - time tp < 250)"
    and "\<bar>px pos - px (point tp)\<bar> < 15" and "\<bar>py pos - py (point tp)\<bar> < 15"
    and "now env - time tp < 400"
  shows "onTouchEnd env ui e =
           (if px pos < 0.25 * pageWidth (getRect env)
              then [FlipPrev BOTTOM, UserStop pos (Some True)]
            else if px pos > 0.75 * pageWidth (getRect env)
              then [FlipNext BOTTOM, UserStop pos (Some True)]
            else [UserStop pos (Some False)],
            ui\<lparr>touchPoint := None\<rparr>) \<and>
         (0 \<le> pageWidth (getRect env) \<and>
          (px pos = 0.25 * pageWidth (getRect env) \<or> px pos = 0.75 * pageWidth (getRect env)) \<longrightarrow>
            onTouchEnd env ui e = ([UserStop pos (Some False)], ui\<lparr>touchPoint := None\<rparr>))"
proof -
  have main: "onTouchEnd env ui e =
           (if px pos < 0.25 * pageWidth (getRect env)
              then [FlipPrev BOTTOM, UserStop pos (Some True)]
            else if px pos > 0.75 * pageWidth (getRect env)
              then [FlipNext BOTTOM, UserStop pos (Some True)]
            else [UserStop pos (Some False)],
            ui\<lparr>touchPoint := None\<rparr>)"
    using assms
    by (simp add: onTouchEnd_def Let_def swipeTimeout_def mult.commute)
  show ?thesis
    unfolding main by auto
qed

text \<open>
  C5. At the touch-end of an open, unresolved session with \<open>|dx|\<close> above the swipe
  distance, vertical displacement under twice the swipe distance and less than 250 ms
  elapsed, the handler dispatches the swipe command by the corner and direction rule of the
  move-based detector (the same command where that detector applies), and then reports
  \<^verbatim>\<open>userStop\<close> with \<^verbatim>\<open>wasSwipe = true\<close>.
\<close>

theorem onTouchEnd_fallback_swipe:
  assumes "touchPoint ui = Some tp" and "\<not> swipeDetected ui" and "changedTouches e = t # ts"
    and "pos = getMousePos env (clientX t) (clientY t)"
    and "ui_swipeDistance ui < \<bar>px pos - px (point tp)\<bar>"
    and "\<bar>py pos - py (point tp)\<bar> < 2 * ui_swipeDistance ui"
    and "now env - time tp < 250"
  shows "onTouchEnd env ui e =
           ([if px pos - px (point tp) > 0
             then FlipPrev (if py (point tp) < page_height (getRect env) / 2 then TOP else BOTTOM)
             else FlipNext (if py (point tp) < page_height (getRect env) / 2 then TOP else BOTTOM),
             UserStop pos (Some True)],
            ui\<lparr>touchPoint := None\<rparr>) \<and>
         (1.2 * \<bar>py pos - py (point tp)\<bar> < \<bar>px pos - px (point tp)\<bar> \<longrightarrow>
            filter is_navigation (fst (onTouchMove env ui e)) =
            filter is_navigation (fst (onTouchEnd env ui e)))"
proof -
  have main: "onTouchEnd env ui e =
           ([swipeCommand env (point tp) pos, UserStop pos (Some True)], ui\<lparr>touchPoint := None\<rparr>)"
    using assms
    by (simp add: onTouchEnd_def Let_def swipeTimeout_def mult.commute swipeCommand_def
        swipeCorner_def)
  have mv: "filter is_navigation (fst (onTouchMove env ui e)) = [swipeCommand env (point tp) pos]"
    if "1.2 * \<bar>py pos - py (point tp)\<bar> < \<bar>px pos - px (point tp)\<bar>"
  proof -
    have "ui_swipeDistance ui \<le> \<bar>px pos - px (point tp)\<bar>" using assms(5) by simp
    from onTouchMove_early[OF assms(1-4) this that] show ?thesis
      by (simp add: swipeCommand_def)
  qed
  have en: "filter is_navigation (fst (onTouchEnd env ui e)) = [swipeCommand env (point tp) pos]"
    by (simp add: main swipeCommand_def)
  show ?thesis using main mv en by (simp add: swipeCommand_def swipeCorner_def)
qed

lemma checkTarget_interactive:
  assumes "clickEventForward (getSettings_app env)"
    and "toLowerCase tag = ''a'' \<or> toLowerCase tag = ''button''"
  shows "\<not> checkTarget env tag"
  using assms by (auto simp: checkTarget_def)

lemma handle_move_or_up:
  assumes "is_move_or_up ev"
  shows "filter is_startUserTouch (fst (handle env ui ev)) = []"
proof (cases ev)
  case (TouchMove e)
  then show ?thesis
    by (auto simp: onTouchMove_def earlySwipe_def Let_def split: list.splits option.splits)
next
  case (TouchEnd e)
  then show ?thesis
    by (auto simp: onTouchEnd_def Let_def split: list.splits option.splits)
qed (use assms in \<open>simp_all add: onMouseMove_def onMouseUp_def\<close>)

lemma run_move_or_up:
  assumes "\<forall>x \<in> set evs. is_move_or_up (snd x)"
  shows "filter is_startUserTouch (fst (run ui evs)) = []"
  using assms
proof (induction evs arbitrary: ui)
  case Nil
  then show ?case by simp
next
  case (Cons x evs)
  obtain env ev where x: "x = (env, ev)" by (cases x)
  have h: "filter is_startUserTouch (fst (handle env ui ev)) = []"
    using Cons.prems x by (intro handle_move_or_up) simp
  have r: "filter is_startUserTouch (fst (run (snd (handle env ui ev)) evs)) = []"
    using Cons by simp
  show ?case using h r x by (simp add: split_beta Let_def)
qed

text \<open>
  C9. With \<^verbatim>\<open>clickEventForward\<close> set, a pointer-down whose target is an anchor or a button
  is ignored on the touch and on the mouse channel: no call is made (so no timer is armed
  and \<^verbatim>\<open>startUserTouch\<close> is not called), the state is unchanged (so no session is created),
  and the moves and the pointer-up that follow do not call \<^verbatim>\<open>startUserTouch\<close>.
\<close>

theorem interactive_target_ignored:
  assumes "clickEventForward (getSettings_app env)"
    and "toLowerCase (target e) = ''a'' \<or> toLowerCase (target e) = ''button''"
    and "toLowerCase (mouse_target m) = ''a'' \<or> toLowerCase (mouse_target m) = ''button''"
    and "\<forall>x \<in> set later. is_move_or_up (snd x)"
  shows "onTouchStart env ui e = ([], ui) \<and>
         onMouseDown env ui m = ([], ui) \<and>
         filter is_startUserTouch (fst (run (snd (onTouchStart env ui e)) later)) = [] \<and>
         filter is_startUserTouch (fst (run (snd (onMouseDown env ui m)) later)) = []"
proof -
  have t: "onTouchStart env ui e = ([], ui)"
    using checkTarget_interactive[OF assms(1,2)] by (simp add: onTouchStart_def)
  have d: "onMouseDown env ui m = ([], ui)"
    using checkTarget_interactive[OF assms(1,3)] by (simp add: onMouseDown_def)
  show ?thesis using t d run_move_or_up[OF assms(4)] by simp
qed



subsection \<open>The scenarios\<close>

lemma toLowerCase_DIV: "toLowerCase ''DIV'' = ''div''" by code_simp
lemma toLowerCase_A: "toLowerCase ''A'' = ''a''" by code_simp
lemma toLowerCase_BUTTON: "toLowerCase ''BUTTON'' = ''button''" by code_simp

lemma onTouchStart_widget:
  "onTouchStart (widget_env w h pw single t0) (new_UI d) (touch_at ''DIV'' a b) =
     (if single then [] else [SetTimeout (mkPoint a b) 250],
      \<lparr>touchPoint = Some \<lparr>point = mkPoint a b, time = t0\<rparr>, swipeDetected = False,
       ui_swipeDistance = d\<rparr>)"
  by (simp add: onTouchStart_def checkTarget_def toLowerCase_DIV widget_env_def touch_at_def
      new_UI_def default_FlipSetting_def getMousePos_def mkPoint_def swipeTimeout_def Let_def)

lemma getMousePos_widget: "getMousePos (widget_env w h pw single t0) a b = mkPoint a b"
  by (simp add: getMousePos_def widget_env_def mkPoint_def)

theorem onTouchMove_resolves_swipe_witness:
  "filter is_navigation
     (fst (onTouchMove (widget_env 200 300 100 False 100)
             (snd (onTouchStart (widget_env 200 300 100 False 0) (new_UI 30) (touch_at ''DIV'' 0 50)))
             (touch_at ''DIV'' 40 52))) = [FlipPrev TOP] \<and>
   filter is_navigation
     (fst (run (snd (onTouchMove (widget_env 200 300 100 False 100)
                      (snd (onTouchStart (widget_env 200 300 100 False 0) (new_UI 30)
                             (touch_at ''DIV'' 0 50)))
                      (touch_at ''DIV'' 40 52)))
             [(widget_env 200 300 100 False 120, TouchMove (touch_at ''DIV'' 90 52)),
              (widget_env 200 300 100 False 140, TouchMove (touch_at ''DIV'' 0 50))])) = []"
proof -
  let ?ui = "snd (onTouchStart (widget_env 200 300 100 False 0) (new_UI 30) (touch_at ''DIV'' 0 50))"
  let ?tp = "\<lparr>point = mkPoint 0 50, time = 0\<rparr>"
  let ?env = "widget_env 200 300 100 False 100"
  let ?later = "[(widget_env 200 300 100 False 120, TouchMove (touch_at ''DIV'' 90 52)),
                 (widget_env 200 300 100 False 140, TouchMove (touch_at ''DIV'' 0 50))]"
  have h1: "touchPoint ?ui = Some ?tp" by (simp add: onTouchStart_widget)
  have h2: "\<not> swipeDetected ?ui" by (simp add: onTouchStart_widget)
  have h3: "changedTouches (touch_at ''DIV'' 40 52) = \<lparr>clientX = 40, clientY = 52\<rparr> # []"
    by (simp add: touch_at_def)
  have h4: "mkPoint 40 52 = getMousePos ?env (clientX \<lparr>clientX = 40, clientY = 52\<rparr>)
                                              (clientY \<lparr>clientX = 40, clientY = 52\<rparr>)"
    by (simp add: getMousePos_widget)
  have h5: "ui_swipeDistance ?ui \<le> \<bar>px (mkPoint 40 52) - px (point ?tp)\<bar>"
    by (simp add: onTouchStart_widget mkPoint_def)
  have h6: "1.2 * \<bar>py (mkPoint 40 52) - py (point ?tp)\<bar> < \<bar>px (mkPoint 40 52) - px (point ?tp)\<bar>"
    by (simp add: mkPoint_def)
  have h7: "\<forall>x \<in> set ?later. is_touch_move (snd x)" by simp
  from onTouchMove_resolves_swipe[OF h1 h2 h3 h4 h5 h6 h7]
  show ?thesis by (simp add: mkPoint_def widget_env_def)
qed

theorem onTouchEnd_tap_zone_witness:
  "onTouchEnd (widget_env 600 800 300 True 100)
     (snd (onTouchStart (widget_env 600 800 300 True 0) (new_UI 30) (touch_at ''DIV'' 10 10)))
     (touch_at ''DIV'' 10 10) =
     ([FlipPrev BOTTOM, UserStop (mkPoint 10 10) (Some True)], new_UI 30) \<and>
   onTouchEnd (widget_env 600 800 300 True 100)
     (snd (onTouchStart (widget_env 600 800 300 True 0) (new_UI 30) (touch_at ''DIV'' 150 10)))
     (touch_at ''DIV'' 150 10) =
     ([UserStop (mkPoint 150 10) (Some False)], new_UI 30) \<and>
   onTouchEnd (widget_env 600 800 300 True 100)
     (snd (onTouchStart (widget_env 600 800 300 True 0) (new_UI 30) (touch_at ''DIV'' 75 10)))
     (touch_at ''DIV'' 75 10) =
     ([UserStop (mkPoint 75 10) (Some False)], new_UI 30)"
proof -
  let ?env = "widget_env 600 800 300 True 100"
  have s: "singlePage (getSettings_app ?env)" by (simp add: widget_env_def)
  have pw: "pageWidth (getRect ?env) = 300" by (simp add: widget_env_def)
  have one: "onTouchEnd ?env
     (snd (onTouchStart (widget_env 600 800 300 True 0) (new_UI 30) (touch_at ''DIV'' a 10)))
     (touch_at ''DIV'' a 10) =
           (if a < 0.25 * 300
              then [FlipPrev BOTTOM, UserStop (mkPoint a 10) (Some True)]
            else if a > 0.75 * 300
              then [FlipNext BOTTOM, UserStop (mkPoint a 10) (Some True)]
            else [UserStop (mkPoint a 10) (Some False)],
            new_UI 30)" for a
  proof -
    let ?ui = "snd (onTouchStart (widget_env 600 800 300 True 0) (new_UI 30) (touch_at ''DIV'' a 10))"
    let ?tp = "\<lparr>point = mkPoint a 10, time = 0\<rparr>"
    have h2: "touchPoint ?ui = Some ?tp" by (simp add: onTouchStart_widget)
    have h3: "\<not> swipeDetected ?ui" by (simp add: onTouchStart_widget)
    have h4: "changedTouches (touch_at ''DIV'' a 10) = \<lparr>clientX = a, clientY = 10\<rparr> # []"
      by (simp add: touch_at_def)
    have h5: "mkPoint a 10 = getMousePos ?env (clientX \<lparr>clientX = a, clientY = 10\<rparr>)
                                              (clientY \<lparr>clientX = a, clientY = 10\<rparr>)"
      by (simp add: getMousePos_widget)
    have h6: "\<not> (ui_swipeDistance ?ui < \<bar>px (mkPoint a 10) - px (point ?tp)\<bar> \<and>
            \<bar>py (mkPoint a 10) - py (point ?tp)\<bar> < 2 * ui_swipeDistance ?ui \<and>
            now ?env - time ?tp < 250)"
      by (simp add: onTouchStart_widget)
    have h7: "\<bar>px (mkPoint a 10) - px (point ?tp)\<bar> < 15" by simp
    have h8: "\<bar>py (mkPoint a 10) - py (point ?tp)\<bar> < 15" by simp
    have h9: "now ?env - time ?tp < 400" by (simp add: widget_env_def)
    have u: "?ui = \<lparr>touchPoint = Some ?tp, swipeDetected = False, ui_swipeDistance = 30\<rparr>"
      by (simp add: onTouchStart_widget)
    from onTouchEnd_tap_zone[OF s h2 h3 h4 h5 h6 h7 h8 h9]
    show ?thesis unfolding u by (simp add: pw mkPoint_def new_UI_def)
  qed
  show ?thesis using one[of 10] one[of 150] one[of 75] by simp
qed

theorem onTouchEnd_fallback_swipe_witness:
  "onTouchEnd (widget_env 200 300 100 False 100)
     (snd (onTouchStart (widget_env 200 300 100 False 0) (new_UI 30) (touch_at ''DIV'' 100 50)))
     (touch_at ''DIV'' 50 55) =
     ([FlipNext TOP, UserStop (mkPoint 50 55) (Some True)], new_UI 30)"
proof -
  let ?env = "widget_env 200 300 100 False 100"
  let ?ui = "snd (onTouchStart (widget_env 200 300 100 False 0) (new_UI 30) (touch_at ''DIV'' 100 50))"
  let ?tp = "\<lparr>point = mkPoint 100 50, time = 0\<rparr>"
  have h1: "touchPoint ?ui = Some ?tp" by (simp add: onTouchStart_widget)
  have h2: "\<not> swipeDetected ?ui" by (simp add: onTouchStart_widget)
  have h3: "changedTouches (touch_at ''DIV'' 50 55) = \<lparr>clientX = 50, clientY = 55\<rparr> # []"
    by (simp add: touch_at_def)
  have h4: "mkPoint 50 55 = getMousePos ?env (clientX \<lparr>clientX = 50, clientY = 55\<rparr>)
                                              (clientY \<lparr>clientX = 50, clientY = 55\<rparr>)"
    by (simp add: getMousePos_widget)
  have h5: "ui_swipeDistance ?ui < \<bar>px (mkPoint 50 55) - px (point ?tp)\<bar>"
    by (simp add: onTouchStart_widget mkPoint_def)
  have h6: "\<bar>py (mkPoint 50 55) - py (point ?tp)\<bar> < 2 * ui_swipeDistance ?ui"
    by (simp add: onTouchStart_widget mkPoint_def)
  have h7: "now ?env - time ?tp < 250" by (simp add: widget_env_def)
  have u: "?ui = \<lparr>touchPoint = Some ?tp, swipeDetected = False, ui_swipeDistance = 30\<rparr>"
    by (simp add: onTouchStart_widget)
  have ph: "page_height (getRect ?env) = 300" by (simp add: widget_env_def)
  from onTouchEnd_fallback_swipe[OF h1 h2 h3 h4 h5 h6 h7]
  show ?thesis unfolding u by (simp add: ph mkPoint_def new_UI_def)
qed

theorem interactive_target_ignored_witness:
  "onTouchStart (widget_env 200 300 100 False 0) (new_UI 30) (touch_at ''A'' 10 10) = ([], new_UI 30) \<and>
   onMouseDown (widget_env 200 300 100 False 0) (new_UI 30) (mouse_at ''BUTTON'' 10 10) = ([], new_UI 30) \<and>
   filter is_startUserTouch
     (fst (run (snd (onTouchStart (widget_env 200 300 100 False 0) (new_UI 30) (touch_at ''A'' 10 10)))
        [(widget_env 200 300 100 False 50, TouchMove (touch_at ''A'' 30 10)),
         (widget_env 200 300 100 False 400, TouchEnd (touch_at ''A'' 30 10))])) = []"
proof -
  let ?env = "widget_env 200 300 100 False 0"
  let ?later = "[(widget_env 200 300 100 False 50, TouchMove (touch_at ''A'' 30 10)),
         (widget_env 200 300 100 False 400, TouchEnd (touch_at ''A'' 30 10))]"
  have h1: "clickEventForward (getSettings_app ?env)"
    by (simp add: widget_env_def default_FlipSetting_def)
  have h2: "toLowerCase (target (touch_at ''A'' 10 10)) = ''a'' \<or>
            toLowerCase (target (touch_at ''A'' 10 10)) = ''button''"
    by (simp add: touch_at_def toLowerCase_A)
  have h3: "toLowerCase (mouse_target (mouse_at ''BUTTON'' 10 10)) = ''a'' \<or>
            toLowerCase (mouse_target (mouse_at ''BUTTON'' 10 10)) = ''button''"
    by (simp add: mouse_at_def toLowerCase_BUTTON)
  have h4: "\<forall>x \<in> set ?later. is_move_or_up (snd x)" by simp
  from interactive_target_ignored[OF h1 h2 h3 h4, of "new_UI 30"]
  show ?thesis by blast
qed



subsection \<open>A timer that outlives its session\<close>

text \<open>
  C2. The claim says that once a session is resolved as a swipe, the corner-drag timer of
  that session cannot fire \<^verbatim>\<open>startUserTouch\<close>. The callback tests the slot and the flag of
  the instance, not the session that armed it, and nothing cancels the timer. In a
  200 by 300 widget with swipe distance 30: a touch starts at \<open>(0, 50)\<close> at time 0 and arms
  the timer; the move to \<open>(40, 52)\<close> at 50 resolves the session as a swipe
  (\<^verbatim>\<open>flipPrev(TOP)\<close>); the touch ends at 100; a second touch starts at \<open>(120, 200)\<close> at 150,
  which fills the slot and clears the flag; at 250 the timer of the first session fires and
  calls \<^verbatim>\<open>startUserTouch\<close> at \<open>(0, 50)\<close>, the origin of the resolved session.
\<close>

theorem stale_timer_starts_corner_drag:
  "fst (run (new_UI 30)
     [(widget_env 200 300 100 False 0, TouchStart (touch_at ''DIV'' 0 50)),
      (widget_env 200 300 100 False 50, TouchMove (touch_at ''DIV'' 40 52)),
      (widget_env 200 300 100 False 100, TouchEnd (touch_at ''DIV'' 40 52)),
      (widget_env 200 300 100 False 150, TouchStart (touch_at ''DIV'' 120 200)),
      (widget_env 200 300 100 False 250, TimerFired (mkPoint 0 50))]) =
     [SetTimeout (mkPoint 0 50) 250,
      PreventDefault, FlipPrev TOP,
      UserStop (mkPoint 40 52) (Some True),
      SetTimeout (mkPoint 120 200) 250,
      StartUserTouch (mkPoint 0 50)]"
  by (simp add: onTouchStart_def onTouchMove_def earlySwipe_def onTouchEnd_def timerCallback_def
      checkTarget_def toLowerCase_DIV widget_env_def touch_at_def new_UI_def
      default_FlipSetting_def getMousePos_def mkPoint_def swipeTimeout_def Let_def)

section \<open>Properties of the settings\<close>

lemma STRETCH_neq_FIXED: "STRETCH \<noteq> FIXED"
  by (simp add: STRETCH_def FIXED_def)

lemma getSettings_cases:
  "getSettings s u h =
     (let r = default_ref s; a = assign (h r) u
      in if size_type a \<noteq> STRETCH \<and> size_type a \<noteq> FIXED then (Inl InvalidSizeType, h(r := a))
         else if width a \<le> 0 \<or> height a \<le> 0 then (Inl InvalidWidthOrHeight, h(r := a))
         else if flippingTime a \<le> 0 then (Inl InvalidFlippingTime, h(r := a))
         else if size_type a = STRETCH then (Inr r, h(r := stretch_bounds a))
         else (Inr r, h(r := fixed_bounds a)))"
  by (simp add: getSettings_def Let_def stretch_bounds_def fixed_bounds_def)

text \<open>
  C7. On a fresh instance the settings in effect are the user's over the defaults.
  \<^verbatim>\<open>getSettings\<close> throws when the size is neither \<^verbatim>\<open>'fixed'\<close> nor \<^verbatim>\<open>'stretch'\<close> (the size
  error), when the width or the height is not positive (the dimension error, when the size
  is valid), and when the flipping time is not positive (the flipping-time error, when size
  and dimensions are valid). Otherwise it returns its object: in stretch mode with a
  minimum that is not positive replaced by 100 and a maximum below the minimum replaced by
  2000 (so 100 for a minimum width the user did not give), in fixed mode with the four
  bounds set to the width and the height.
\<close>

theorem getSettings_fresh_instance:
  assumes "h (default_ref s) = default_FlipSetting"
  shows "(size_type (effective u) \<noteq> FIXED \<and> size_type (effective u) \<noteq> STRETCH \<longrightarrow>
            fst (getSettings s u h) = Inl InvalidSizeType) \<and>
         (width (effective u) \<le> 0 \<or> height (effective u) \<le> 0 \<longrightarrow>
            fst (getSettings s u h) = Inl InvalidSizeType \<or>
            fst (getSettings s u h) = Inl InvalidWidthOrHeight) \<and>
         ((size_type (effective u) = FIXED \<or> size_type (effective u) = STRETCH) \<and>
          (width (effective u) \<le> 0 \<or> height (effective u) \<le> 0) \<longrightarrow>
            fst (getSettings s u h) = Inl InvalidWidthOrHeight) \<and>
         (flippingTime (effective u) \<le> 0 \<longrightarrow> (\<exists>err. fst (getSettings s u h) = Inl err)) \<and>
         ((size_type (effective u) = FIXED \<or> size_type (effective u) = STRETCH) \<and>
          0 < width (effective u) \<and> 0 < height (effective u) \<and> flippingTime (effective u) \<le> 0 \<longrightarrow>
            fst (getSettings s u h) = Inl InvalidFlippingTime) \<and>
         (size_type (effective u) = STRETCH \<and>
          0 < width (effective u) \<and> 0 < height (effective u) \<and> 0 < flippingTime (effective u) \<longrightarrow>
            fst (getSettings s u h) = Inr (default_ref s) \<and>
            snd (getSettings s u h) (default_ref s) = stretch_bounds (effective u) \<and>
            (minWidth (effective u) \<le> 0 \<longrightarrow> minWidth (snd (getSettings s u h) (default_ref s)) = 100) \<and>
            (maxWidth (effective u) < minWidth (effective u) \<longrightarrow>
               maxWidth (snd (getSettings s u h) (default_ref s)) = 2000) \<and>
            (minHeight (effective u) \<le> 0 \<longrightarrow> minHeight (snd (getSettings s u h) (default_ref s)) = 100) \<and>
            (maxHeight (effective u) < minHeight (effective u) \<longrightarrow>
               maxHeight (snd (getSettings s u h) (default_ref s)) = 2000) \<and>
            (u_minWidth u = None \<longrightarrow> minWidth (snd (getSettings s u h) (default_ref s)) = 100)) \<and>
         (size_type (effective u) = FIXED \<and>
          0 < width (effective u) \<and> 0 < height (effective u) \<and> 0 < flippingTime (effective u) \<longrightarrow>
            fst (getSettings s u h) = Inr (default_ref s) \<and>
            snd (getSettings s u h) (default_ref s) = fixed_bounds (effective u) \<and>
            minWidth (snd (getSettings s u h) (default_ref s)) = width (effective u) \<and>
            maxWidth (snd (getSettings s u h) (default_ref s)) = width (effective u) \<and>
            minHeight (snd (getSettings s u h) (default_ref s)) = height (effective u) \<and>
            maxHeight (snd (getSettings s u h) (default_ref s)) = height (effective u))"
proof -
  have a: "assign (h (default_ref s)) u = effective u"
    by (simp add: assms effective_def)
  have g: "getSettings s u h =
     (if size_type (effective u) \<noteq> STRETCH \<and> size_type (effective u) \<noteq> FIXED
        then (Inl InvalidSizeType, h(default_ref s := effective u))
      else if width (effective u) \<le> 0 \<or> height (effective u) \<le> 0
        then (Inl InvalidWidthOrHeight, h(default_ref s := effective u))
      else if flippingTime (effective u) \<le> 0
        then (Inl InvalidFlippingTime, h(default_ref s := effective u))
      else if size_type (effective u) = STRETCH
        then (Inr (default_ref s), h(default_ref s := stretch_bounds (effective u)))
      else (Inr (default_ref s), h(default_ref s := fixed_bounds (effective u))))"
    by (simp add: getSettings_cases Let_def a)
  have m: "u_minWidth u = None \<Longrightarrow> minWidth (effective u) = 0"
    by (simp add: effective_def assign_def pick_def default_FlipSetting_def)
  have c1: "size_type (effective u) \<noteq> FIXED \<and> size_type (effective u) \<noteq> STRETCH \<longrightarrow>
            fst (getSettings s u h) = Inl InvalidSizeType"
    by (simp add: g)
  have c2: "width (effective u) \<le> 0 \<or> height (effective u) \<le> 0 \<longrightarrow>
            fst (getSettings s u h) = Inl InvalidSizeType \<or>
            fst (getSettings s u h) = Inl InvalidWidthOrHeight"
    by (auto simp: g)
  have c3: "(size_type (effective u) = FIXED \<or> size_type (effective u) = STRETCH) \<and>
          (width (effective u) \<le> 0 \<or> height (effective u) \<le> 0) \<longrightarrow>
            fst (getSettings s u h) = Inl InvalidWidthOrHeight"
    by (auto simp: g)
  have c4: "flippingTime (effective u) \<le> 0 \<longrightarrow> (\<exists>err. fst (getSettings s u h) = Inl err)"
    by (auto simp: g)
  have c5: "(size_type (effective u) = FIXED \<or> size_type (effective u) = STRETCH) \<and>
          0 < width (effective u) \<and> 0 < height (effective u) \<and> flippingTime (effective u) \<le> 0 \<longrightarrow>
            fst (getSettings s u h) = Inl InvalidFlippingTime"
    by (auto simp: g)
  have c6: "size_type (effective u) = STRETCH \<and>
          0 < width (effective u) \<and> 0 < height (effective u) \<and> 0 < flippingTime (effective u) \<longrightarrow>
            fst (getSettings s u h) = Inr (default_ref s) \<and>
            snd (getSettings s u h) (default_ref s) = stretch_bounds (effective u) \<and>
            (minWidth (effective u) \<le> 0 \<longrightarrow> minWidth (snd (getSettings s u h) (default_ref s)) = 100) \<and>
            (maxWidth (effective u) < minWidth (effective u) \<longrightarrow>
               maxWidth (snd (getSettings s u h) (default_ref s)) = 2000) \<and>
            (minHeight (effective u) \<le> 0 \<longrightarrow> minHeight (snd (getSettings s u h) (default_ref s)) = 100) \<and>
            (maxHeight (effective u) < minHeight (effective u) \<longrightarrow>
               maxHeight (snd (getSettings s u h) (default_ref s)) = 2000) \<and>
            (u_minWidth u = None \<longrightarrow> minWidth (snd (getSettings s u h) (default_ref s)) = 100)"
    using m by (auto simp: g stretch_bounds_def)
  have c7: "size_type (effective u) = FIXED \<and>
          0 < width (effective u) \<and> 0 < height (effective u) \<and> 0 < flippingTime (effective u) \<longrightarrow>
            fst (getSettings s u h) = Inr (default_ref s) \<and>
            snd (getSettings s u h) (default_ref s) = fixed_bounds (effective u) \<and>
            minWidth (snd (getSettings s u h) (default_ref s)) = width (effective u) \<and>
            maxWidth (snd (getSettings s u h) (default_ref s)) = width (effective u) \<and>
            minHeight (snd (getSettings s u h) (default_ref s)) = height (effective u) \<and>
            maxHeight (snd (getSettings s u h) (default_ref s)) = height (effective u)"
    using STRETCH_neq_FIXED by (auto simp: g fixed_bounds_def)
  show ?thesis using c1 c2 c3 c4 c5 c6 c7 by blast
qed

lemma fresh_store_default: "fresh_store (default_ref fresh_Settings) = default_FlipSetting"
  by (simp add: fresh_store_def fresh_Settings_def new_Settings_def)

lemma default_ref_fresh: "default_ref fresh_Settings = 0"
  by (simp add: fresh_Settings_def new_Settings_def)

theorem getSettings_fresh_instance_witness:
  "fst (getSettings fresh_Settings (no_settings\<lparr>u_width := Some 0, u_height := Some 100\<rparr>) fresh_store)
     = Inl InvalidWidthOrHeight \<and>
   fst (getSettings fresh_Settings
          (no_settings\<lparr>u_size := Some ''big'', u_width := Some 300, u_height := Some 400\<rparr>) fresh_store)
     = Inl InvalidSizeType \<and>
   fst (getSettings fresh_Settings
          (no_settings\<lparr>u_width := Some 300, u_height := Some 400, u_flippingTime := Some 0\<rparr>)
          fresh_store)
     = Inl InvalidFlippingTime \<and>
   fst (getSettings fresh_Settings
          (no_settings\<lparr>u_size := Some ''stretch'', u_width := Some 300, u_height := Some 400\<rparr>)
          fresh_store) = Inr 0 \<and>
   minWidth (snd (getSettings fresh_Settings
          (no_settings\<lparr>u_size := Some ''stretch'', u_width := Some 300, u_height := Some 400\<rparr>)
          fresh_store) 0) = 100 \<and>
   maxWidth (snd (getSettings fresh_Settings
          (no_settings\<lparr>u_size := Some ''stretch'', u_width := Some 300, u_height := Some 400\<rparr>)
          fresh_store) 0) = 2000 \<and>
   minWidth (snd (getSettings fresh_Settings
          (no_settings\<lparr>u_width := Some 300, u_height := Some 400\<rparr>) fresh_store) 0) = 300 \<and>
   maxHeight (snd (getSettings fresh_Settings
          (no_settings\<lparr>u_width := Some 300, u_height := Some 400\<rparr>) fresh_store) 0) = 400"
proof -
  note t = getSettings_fresh_instance[where h = fresh_store and s = fresh_Settings,
      OF fresh_store_default]
  let ?u1 = "no_settings\<lparr>u_width := Some 0, u_height := Some 100\<rparr>"
  let ?u2 = "no_settings\<lparr>u_size := Some ''big'', u_width := Some 300, u_height := Some 400\<rparr>"
  let ?u3 = "no_settings\<lparr>u_width := Some 300, u_height := Some 400, u_flippingTime := Some 0\<rparr>"
  let ?u4 = "no_settings\<lparr>u_size := Some ''stretch'', u_width := Some 300, u_height := Some 400\<rparr>"
  let ?u5 = "no_settings\<lparr>u_width := Some 300, u_height := Some 400\<rparr>"
  have e1: "size_type (effective ?u1) = FIXED" "width (effective ?u1) = 0"
    by (simp_all add: effective_def assign_def pick_def no_settings_def default_FlipSetting_def)
  have e2: "size_type (effective ?u2) = ''big''"
    by (simp_all add: effective_def assign_def pick_def no_settings_def default_FlipSetting_def)
  have e3: "size_type (effective ?u3) = FIXED" "width (effective ?u3) = 300"
    "height (effective ?u3) = 400" "flippingTime (effective ?u3) = 0"
    by (simp_all add: effective_def assign_def pick_def no_settings_def default_FlipSetting_def)
  have e4: "size_type (effective ?u4) = STRETCH" "width (effective ?u4) = 300"
    "height (effective ?u4) = 400" "flippingTime (effective ?u4) = 1000"
    "minWidth (effective ?u4) = 0" "maxWidth (effective ?u4) = 0" "u_minWidth ?u4 = None"
    by (simp_all add: effective_def assign_def pick_def no_settings_def default_FlipSetting_def
        STRETCH_def)
  have e5: "size_type (effective ?u5) = FIXED" "width (effective ?u5) = 300"
    "height (effective ?u5) = 400" "flippingTime (effective ?u5) = 1000"
    by (simp_all add: effective_def assign_def pick_def no_settings_def default_FlipSetting_def)
  have a1: "fst (getSettings fresh_Settings ?u1 fresh_store) = Inl InvalidWidthOrHeight"
    using t[of ?u1] e1 by simp
  have a2: "fst (getSettings fresh_Settings ?u2 fresh_store) = Inl InvalidSizeType"
    using t[of ?u2] e2 by (simp add: FIXED_def STRETCH_def)
  have a3: "fst (getSettings fresh_Settings ?u3 fresh_store) = Inl InvalidFlippingTime"
    using t[of ?u3] e3 by simp
  have a4: "fst (getSettings fresh_Settings ?u4 fresh_store) = Inr 0"
    "minWidth (snd (getSettings fresh_Settings ?u4 fresh_store) 0) = 100"
    "maxWidth (snd (getSettings fresh_Settings ?u4 fresh_store) 0) = 2000"
    using t[of ?u4] e4 by (simp_all add: default_ref_fresh stretch_bounds_def)
  have a5: "minWidth (snd (getSettings fresh_Settings ?u5 fresh_store) 0) = 300"
    "maxHeight (snd (getSettings fresh_Settings ?u5 fresh_store) 0) = 400"
    using t[of ?u5] e5 by (simp_all add: default_ref_fresh fixed_bounds_def)
  show ?thesis using a1 a2 a3 a4 a5 by simp
qed

lemma lookup_assign_given:
  "given u k = Some v \<Longrightarrow> lookup (assign r u) k = v"
  by (cases k) (auto simp: assign_def pick_def)

lemma lookup_assign_absent:
  "given u k = None \<Longrightarrow> lookup (assign r u) k = lookup r k"
  by (cases k) (auto simp: assign_def pick_def)

lemma lookup_stretch_bounds:
  "k \<notin> bound_keys \<Longrightarrow> lookup (stretch_bounds r) k = lookup r k"
  by (cases k) (simp_all add: stretch_bounds_def bound_keys_def)

lemma lookup_fixed_bounds:
  "k \<notin> bound_keys \<Longrightarrow> lookup (fixed_bounds r) k = lookup r k"
  by (cases k) (simp_all add: fixed_bounds_def bound_keys_def)

lemma size_type_bounds:
  "size_type (stretch_bounds r) = size_type r" "size_type (fixed_bounds r) = size_type r"
  by (simp_all add: stretch_bounds_def fixed_bounds_def)

lemma getSettings_store:
  "snd (getSettings s u h) (default_ref s) = assign (h (default_ref s)) u \<or>
   snd (getSettings s u h) (default_ref s) = stretch_bounds (assign (h (default_ref s)) u) \<or>
   snd (getSettings s u h) (default_ref s) = fixed_bounds (assign (h (default_ref s)) u)"
  by (simp add: getSettings_cases Let_def)

lemma getSettings_returns:
  assumes "getSettings s u h = (Inr r, h')"
  shows "r = default_ref s \<and>
         (size_type (h' r) = STRETCH \<longrightarrow> h' r = stretch_bounds (assign (h r) u)) \<and>
         (size_type (h' r) \<noteq> STRETCH \<longrightarrow> h' r = fixed_bounds (assign (h r) u))"
  using assms
  by (auto simp: getSettings_cases Let_def size_type_bounds split: if_splits)

lemma getSettings_lookup:
  assumes "k \<notin> bound_keys"
  shows "lookup (snd (getSettings s u h) (default_ref s)) k = lookup (assign (h (default_ref s)) u) k"
  using getSettings_store[of s u h] assms
  by (auto simp: lookup_stretch_bounds lookup_fixed_bounds)

text \<open>
  C10, as amended. \<^verbatim>\<open>getSettings\<close> returns the reference the instance holds in
  \<^verbatim>\<open>_default\<close>, at every call. After \<open>getSettings u1\<close> and then \<open>getSettings u2\<close> on one
  instance, when the second call returns: every key other than the four bounds that is
  present in \<open>u1\<close> and absent from \<open>u2\<close> has the value of \<open>u1\<close> in the second result; every
  such key absent from \<open>u2\<close> has the value the first call left; and the four bounds are
  those the validation computes from the object the first call left, overlaid with \<open>u2\<close>,
  not from the defaults.
\<close>

theorem getSettings_successive_calls:
  assumes "getSettings s u1 h = (res1, h1)" and "getSettings s u2 h1 = (Inr r2, h2)"
  shows "r2 = default_ref s \<and>
         (\<forall>r1. res1 = Inr r1 \<longrightarrow> r1 = r2) \<and>
         (\<forall>k v. k \<notin> bound_keys \<and> given u1 k = Some v \<and> given u2 k = None \<longrightarrow>
                lookup (h2 r2) k = v) \<and>
         (\<forall>k. k \<notin> bound_keys \<and> given u2 k = None \<longrightarrow> lookup (h2 r2) k = lookup (h1 r2) k) \<and>
         (size_type (h2 r2) = STRETCH \<longrightarrow> h2 r2 = stretch_bounds (assign (h1 r2) u2)) \<and>
         (size_type (h2 r2) \<noteq> STRETCH \<longrightarrow> h2 r2 = fixed_bounds (assign (h1 r2) u2))"
proof -
  note b = getSettings_returns[OF assms(2)]
  have r: "r2 = default_ref s" using b by simp
  have r1: "\<forall>r1. res1 = Inr r1 \<longrightarrow> r1 = r2"
    using assms(1) r by (auto simp: getSettings_cases Let_def split: if_splits)
  have h1: "h1 = snd (getSettings s u1 h)" and h2: "h2 = snd (getSettings s u2 h1)"
    using assms by simp_all
  have second: "lookup (h2 r2) k = lookup (assign (h1 r2) u2) k" if "k \<notin> bound_keys" for k
    unfolding h2 r using getSettings_lookup[OF that] by simp
  have first: "lookup (h1 r2) k = lookup (assign (h r2) u1) k" if "k \<notin> bound_keys" for k
    unfolding h1 r using getSettings_lookup[OF that] by simp
  have keep: "lookup (h2 r2) k = lookup (h1 r2) k" if "k \<notin> bound_keys" "given u2 k = None" for k
    using second[OF that(1)] lookup_assign_absent[OF that(2)] by simp
  have retain: "lookup (h2 r2) k = v"
    if "k \<notin> bound_keys" "given u1 k = Some v" "given u2 k = None" for k v
    using keep[OF that(1,3)] first[OF that(1)] lookup_assign_given[OF that(2)] by simp
  show ?thesis using r r1 retain keep b by blast
qed

text \<open>
  C10 as stated fails for the four bounds: with \<open>u1 = {width: 100, height: 100,
  minWidth: 50}\<close> and \<open>u2 = {}\<close> on a fresh instance, the key \<^verbatim>\<open>minWidth\<close> is present in
  \<open>u1\<close> and absent from \<open>u2\<close>, both calls return, and the second result has \<^verbatim>\<open>minWidth\<close>
  100, not 50.
\<close>

theorem getSettings_bound_key_not_retained:
  "given (no_settings\<lparr>u_width := Some 100, u_height := Some 100, u_minWidth := Some 50\<rparr>)
     K_minWidth = Some (NumV 50) \<and>
   given no_settings K_minWidth = None \<and>
   fst (getSettings fresh_Settings
          (no_settings\<lparr>u_width := Some 100, u_height := Some 100, u_minWidth := Some 50\<rparr>)
          fresh_store) = Inr 0 \<and>
   fst (getSettings fresh_Settings no_settings
          (snd (getSettings fresh_Settings
                  (no_settings\<lparr>u_width := Some 100, u_height := Some 100, u_minWidth := Some 50\<rparr>)
                  fresh_store))) = Inr 0 \<and>
   lookup (snd (getSettings fresh_Settings no_settings
                  (snd (getSettings fresh_Settings
                          (no_settings\<lparr>u_width := Some 100, u_height := Some 100,
                                         u_minWidth := Some 50\<rparr>)
                          fresh_store))) 0) K_minWidth = NumV 100 \<and>
   NumV 100 \<noteq> NumV 50"
proof -
  let ?u1 = "no_settings\<lparr>u_width := Some 100, u_height := Some 100, u_minWidth := Some 50\<rparr>"
  let ?a1 = "assign default_FlipSetting ?u1"
  have a1: "size_type ?a1 = FIXED" "width ?a1 = 100" "height ?a1 = 100" "flippingTime ?a1 = 1000"
    by (simp_all add: assign_def pick_def no_settings_def default_FlipSetting_def)
  have g1: "getSettings fresh_Settings ?u1 fresh_store =
              (Inr 0, fresh_store(0 := fixed_bounds ?a1))"
    using a1 STRETCH_neq_FIXED
    by (simp add: getSettings_cases Let_def default_ref_fresh fresh_store_default[simplified default_ref_fresh])
  let ?h1 = "fresh_store(0 := fixed_bounds ?a1)"
  let ?a2 = "assign (fixed_bounds ?a1) no_settings"
  have a2: "size_type ?a2 = FIXED" "width ?a2 = 100" "height ?a2 = 100" "flippingTime ?a2 = 1000"
    by (simp_all add: assign_def pick_def no_settings_def default_FlipSetting_def fixed_bounds_def)
  have g2: "getSettings fresh_Settings no_settings ?h1 = (Inr 0, ?h1(0 := fixed_bounds ?a2))"
    using a2 STRETCH_neq_FIXED
    by (simp add: getSettings_cases Let_def default_ref_fresh)
  have m: "minWidth (fixed_bounds ?a2) = 100"
    using a2 by (simp add: fixed_bounds_def)
  have gv: "given ?u1 K_minWidth = Some (NumV 50)" "given no_settings K_minWidth = None"
    by (simp_all add: no_settings_def)
  show ?thesis
    unfolding g1 snd_conv fst_conv g2 using m gv by simp
qed

theorem getSettings_successive_calls_witness:
  "fst (getSettings fresh_Settings
          (no_settings\<lparr>u_width := Some 300, u_height := Some 400, u_drawShadow := Some False\<rparr>)
          fresh_store) = Inr 0 \<and>
   fst (getSettings fresh_Settings (no_settings\<lparr>u_size := Some ''stretch''\<rparr>)
          (snd (getSettings fresh_Settings
                  (no_settings\<lparr>u_width := Some 300, u_height := Some 400,
                                 u_drawShadow := Some False\<rparr>)
                  fresh_store))) = Inr 0 \<and>
   lookup (snd (getSettings fresh_Settings (no_settings\<lparr>u_size := Some ''stretch''\<rparr>)
                  (snd (getSettings fresh_Settings
                          (no_settings\<lparr>u_width := Some 300, u_height := Some 400,
                                         u_drawShadow := Some False\<rparr>)
                          fresh_store))) 0) K_drawShadow = BoolV False \<and>
   lookup (snd (getSettings fresh_Settings (no_settings\<lparr>u_size := Some ''stretch''\<rparr>)
                  (snd (getSettings fresh_Settings
                          (no_settings\<lparr>u_width := Some 300, u_height := Some 400,
                                         u_drawShadow := Some False\<rparr>)
                          fresh_store))) 0) K_width = NumV 300 \<and>
   minWidth (snd (getSettings fresh_Settings (no_settings\<lparr>u_size := Some ''stretch''\<rparr>)
                  (snd (getSettings fresh_Settings
                          (no_settings\<lparr>u_width := Some 300, u_height := Some 400,
                                         u_drawShadow := Some False\<rparr>)
                          fresh_store))) 0) = 300"
proof -
  let ?u1 = "no_settings\<lparr>u_width := Some 300, u_height := Some 400, u_drawShadow := Some False\<rparr>"
  let ?u2 = "no_settings\<lparr>u_size := Some ''stretch''\<rparr>"
  let ?a1 = "assign default_FlipSetting ?u1"
  have a1: "size_type ?a1 = FIXED" "width ?a1 = 300" "height ?a1 = 400" "flippingTime ?a1 = 1000"
    by (simp_all add: assign_def pick_def no_settings_def default_FlipSetting_def)
  have g1: "getSettings fresh_Settings ?u1 fresh_store =
              (Inr 0, fresh_store(0 := fixed_bounds ?a1))"
    using a1 STRETCH_neq_FIXED
    by (simp add: getSettings_cases Let_def default_ref_fresh fresh_store_default[simplified default_ref_fresh])
  let ?h1 = "fresh_store(0 := fixed_bounds ?a1)"
  let ?a2 = "assign (fixed_bounds ?a1) ?u2"
  have a2: "size_type ?a2 = STRETCH" "width ?a2 = 300" "height ?a2 = 400" "flippingTime ?a2 = 1000"
    "minWidth ?a2 = 300"
    by (simp_all add: assign_def pick_def no_settings_def default_FlipSetting_def fixed_bounds_def
        STRETCH_def)
  have g2: "getSettings fresh_Settings ?u2 ?h1 = (Inr 0, ?h1(0 := stretch_bounds ?a2))"
    using a2 by (simp add: getSettings_cases Let_def default_ref_fresh)
  note t = getSettings_successive_calls[OF g1 g2]
  have k1: "K_drawShadow \<notin> bound_keys" "K_width \<notin> bound_keys" by (simp_all add: bound_keys_def)
  have gv: "given ?u1 K_drawShadow = Some (BoolV False)" "given ?u2 K_drawShadow = None"
    "given ?u1 K_width = Some (NumV 300)" "given ?u2 K_width = None"
    by (simp_all add: no_settings_def)
  have d: "lookup ((?h1(0 := stretch_bounds ?a2)) 0) K_drawShadow = BoolV False"
    using t k1(1) gv(1,2) by blast
  have w: "lookup ((?h1(0 := stretch_bounds ?a2)) 0) K_width = NumV 300"
    using t k1(2) gv(3,4) by blast
  have sz: "size_type ((?h1(0 := stretch_bounds ?a2)) 0) = STRETCH"
    using a2(1) by (simp add: size_type_bounds)
  have "(?h1(0 := stretch_bounds ?a2)) 0 = stretch_bounds (assign (?h1 0) ?u2)"
    using t sz by blast
  then have mw: "minWidth ((?h1(0 := stretch_bounds ?a2)) 0) = 300"
    using a2(5) by (simp add: stretch_bounds_def)
  show ?thesis
    unfolding g1 snd_conv fst_conv g2 using d w mw by simp
qed


end
